theory Spec2Isabelle
  imports Main "HOL-Library.Char_ord" "HOL-Library.List_Lexorder" "HOL-Library.Word"
begin

section \<open>External rootfs mount resolution (runtime/v2/runc/external_rootfs.go)\<close>

text \<open>
  The file under verification holds two versions of the same Go package, one after the
  other. The first (lines 1-205) resolves a device mount by layering a descriptor file,
  inline values and mount options (\<open>externalDevice\<close>); the second (lines 206-358) builds
  the device mount directly. Definitions of the second version carry the suffix \<open>2\<close>.

  Go strings are byte sequences, modelled as \<open>string\<close> (a list of 8-bit \<open>char\<close>).
  A Go result pair \<open>(value, error)\<close> is a sum: \<open>Inl err\<close> stands for \<open>(nil, err)\<close> and
  \<open>Inr v\<close> for \<open>(v, nil)\<close>.
\<close>

subsection \<open>The functions of package \<open>strings\<close> that the code calls\<close>

text \<open>
  \<open>strings.HasPrefix(s, prefix)\<close> is
  \<open>len(s) >= len(prefix) && s[:len(prefix)] == prefix\<close>.
\<close>

definition HasPrefix :: "string \<Rightarrow> string \<Rightarrow> bool" where
  "HasPrefix s pre \<longleftrightarrow> length pre \<le> length s \<and> take (length pre) s = pre"

text \<open>
  \<open>strings.TrimPrefix(s, prefix)\<close> returns \<open>s[len(prefix):]\<close> when \<open>s\<close> has the
  prefix and \<open>s\<close> itself otherwise.
\<close>

definition TrimPrefix :: "string \<Rightarrow> string \<Rightarrow> string" where
  "TrimPrefix s pre = (if HasPrefix s pre then drop (length pre) s else s)"

text \<open>
  \<open>strings.Count(s, sep)\<close> for a separator of one byte, as at both call sites
  (\<open>"="\<close> and \<open>","\<close>).
\<close>

definition Count :: "string \<Rightarrow> char \<Rightarrow> nat" where
  "Count s sep = length (filter (\<lambda>c. c = sep) s)"

text \<open>
  The loop of \<open>strings.genSplit\<close>: at most \<open>k\<close> times, cut \<open>s\<close> at the next separator;
  the rest of the string is the last element. \<open>strings.Index\<close> finding no separator
  ends the loop early.
\<close>

fun genSplit_loop :: "char \<Rightarrow> nat \<Rightarrow> string \<Rightarrow> string list" where
  "genSplit_loop sep 0 s = [s]"
| "genSplit_loop sep (Suc k) s =
     (case dropWhile (\<lambda>c. c \<noteq> sep) s of
        [] \<Rightarrow> [s]
      | _ # rest \<Rightarrow> takeWhile (\<lambda>c. c \<noteq> sep) s # genSplit_loop sep k rest)"

text \<open>
  \<open>strings.SplitN(s, sep, n)\<close>: \<open>n = 0\<close> gives no substrings (nil), \<open>n < 0\<close> all of
  them (\<open>n\<close> becomes \<open>Count(s, sep) + 1\<close>), \<open>n > 0\<close> at most \<open>n\<close>, the last one being the
  unsplit remainder. \<open>n\<close> is capped at \<open>len(s) + 1\<close>. \<open>strings.Split(s, sep)\<close> is
  \<open>SplitN(s, sep, -1)\<close>.
\<close>

definition SplitN :: "string \<Rightarrow> char \<Rightarrow> int \<Rightarrow> string list" where
  "SplitN s sep n =
     (if n = 0 then []
      else let n1 = (if n < 0 then Count s sep + 1 else nat n);
               n2 = (if n1 > length s + 1 then length s + 1 else n1)
           in genSplit_loop sep (n2 - 1) s)"

definition Split :: "string \<Rightarrow> char \<Rightarrow> string list" where
  "Split s sep = SplitN s sep (- 1)"

subsection \<open>Data\<close>

text \<open>
  \<open>mount.Mount\<close> is declared in another package. Modelled from the spec: the mount type,
  \<open>{ type: string, source: string, options: ordered sequence of string }\<close>; the three
  fields are the ones the code reads and writes.
\<close>

record Mount =
  Type :: string
  Source :: string
  Options :: "string list"

text \<open>The prefix and the two driver names (lines 33-37).\<close>

definition ExternalRootFSPrefix :: string where
  "ExternalRootFSPrefix = ''EXTERNAL_ROOTFS_''"

definition ExternalRootFSDriverOverlay :: string where
  "ExternalRootFSDriverOverlay = ''overlay''"

definition ExternalRootFSDriverDevice :: string where
  "ExternalRootFSDriverDevice = ''device''"

text \<open>\<open>ExternalRootFSConfig\<close> of the first version (lines 39-47).\<close>

record ExternalRootFSConfig =
  Driver :: string
  OverlayLower :: string
  OverlayUpper :: string
  Device :: string
  DeviceFSType :: string
  DeviceConfig :: string
  DeviceMountOpts :: string

text \<open>\<open>ExtDevice\<close> (lines 49-52); the field \<open>Device\<close> is named \<open>ed_Device\<close> here.\<close>

record ExtDevice =
  ed_Device :: string
  FilesystemType :: string

subsection \<open>ParseOverlayOption (lines 87-107)\<close>

text \<open>
  The loop body, on the three variables \<open>(upperdir, lowerdir, workdir)\<close>: the first
  matching \<open>if\<close> assigns and continues.
\<close>

fun ParseOverlayOption_loop ::
  "string list \<Rightarrow> string \<times> string \<times> string \<Rightarrow> string \<times> string \<times> string" where
  "ParseOverlayOption_loop [] acc = acc"
| "ParseOverlayOption_loop (option # rest) (upperdir, lowerdir, workdir) =
     (if HasPrefix option ''upperdir'' then
        ParseOverlayOption_loop rest (TrimPrefix option ''upperdir='', lowerdir, workdir)
      else if HasPrefix option ''lowerdir'' then
        ParseOverlayOption_loop rest (upperdir, TrimPrefix option ''lowerdir='', workdir)
      else if HasPrefix option ''workdir'' then
        ParseOverlayOption_loop rest (upperdir, lowerdir, TrimPrefix option ''workdir='')
      else ParseOverlayOption_loop rest (upperdir, lowerdir, workdir))"

definition ParseOverlayOption :: "Mount \<Rightarrow> string \<times> string \<times> string" where
  "ParseOverlayOption m = ParseOverlayOption_loop (Options m) ('''', '''', '''')"

subsection \<open>What the code calls outside the file\<close>

text \<open>
  An error is either one that a callee outside the file returned (identified by its
  message), the one \<open>fmt.Errorf\<close> builds in \<open>externalDevice\<close>, or the panic of
  dereferencing a nil \<open>spec.Process\<close>.
\<close>

datatype error = ExternalError string | Errorf string | NilDereference

text \<open>
  Modelled from the spec: \<open>oci.ReadSpec\<close> is "a collaborator that, given a file path,
  returns a process environment as an ordered sequence of KEY=VALUE strings", with
  "explicit failure on missing/malformed file". The field \<open>Process\<close> of the OCI \<open>Spec\<close>
  is a pointer, so it can be nil.
\<close>

record oci_Process =
  Env :: "string list"

record oci_Spec =
  Process :: "oci_Process option"

type_synonym FileMode = "32 word"

text \<open>
  The answers of the operating system and of the libraries, as functions of the
  arguments of each call: \<open>oci.ReadSpec\<close>, \<open>os.ReadFile\<close>, \<open>json.Unmarshal\<close> into an
  \<open>ExtDevice\<close>, \<open>os.MkdirAll\<close>, \<open>json.Marshal\<close> of a mount list, \<open>filepath.Join\<close> and
  \<open>os.WriteFile\<close>. A call that returns only an error returns \<open>None\<close> for nil.
\<close>

record World =
  oci_ReadSpec :: "string \<Rightarrow> error + oci_Spec"
  os_ReadFile :: "string \<Rightarrow> error + string"
  json_Unmarshal_ExtDevice :: "string \<Rightarrow> error + ExtDevice"
  os_MkdirAll :: "string \<Rightarrow> FileMode \<Rightarrow> error option"
  json_Marshal_Mounts :: "Mount list \<Rightarrow> error + string"
  filepath_Join :: "string \<Rightarrow> string \<Rightarrow> string"
  os_WriteFile :: "string \<Rightarrow> string \<Rightarrow> FileMode \<Rightarrow> error option"

text \<open>
  What a call did, in order: the calls that change the file system, with their
  arguments, and which of the three returns of \<open>HookMounts\<close> was reached.
\<close>

datatype event =
    Call_MkdirAll string FileMode
  | Call_WriteFile string string FileMode
  | Branch_Overlay
  | Branch_Device
  | Branch_PassThrough

subsection \<open>WriteMounts (lines 19-29)\<close>

text \<open>The mode \<open>0600\<close> is octal: \<open>0x180\<close>.\<close>

definition WriteMounts :: "World \<Rightarrow> string \<Rightarrow> Mount list \<Rightarrow> error option \<times> event list" where
  "WriteMounts w path mounts =
     (if length mounts = 0 then (None, [])
      else case json_Marshal_Mounts w mounts of
             Inl err \<Rightarrow> (Some err, [])
           | Inr b \<Rightarrow>
               (let name = filepath_Join w path ''mounts.json''
                in (os_WriteFile w name b 0x180, [Call_WriteFile name b 0x180])))"

text \<open>
  The documented effect of a successful \<open>os.WriteFile(name, data, perm)\<close> on the files:
  "If the file does not exist, WriteFile creates it with permissions perm (before umask);
  otherwise WriteFile truncates it before writing, without changing permissions."
  The other events leave the files as they are.
\<close>

record File =
  contents :: string
  perm :: FileMode

fun run_event :: "FileMode \<Rightarrow> (string \<rightharpoonup> File) \<Rightarrow> event \<Rightarrow> (string \<rightharpoonup> File)" where
  "run_event umask fs (Call_WriteFile name b pm) =
     fs(name \<mapsto> (case fs name of
                     None \<Rightarrow> \<lparr>contents = b, perm = and pm (not umask)\<rparr>
                   | Some f \<Rightarrow> f\<lparr>contents := b\<rparr>))"
| "run_event umask fs _ = fs"

subsection \<open>ReadExternalRootFSConfigFromENV (lines 54-85)\<close>

text \<open>
  The Go map \<open>configMap\<close> is a list of pairs with distinct keys; \<open>configMap[k] = v\<close>
  replaces the value of a key that is present and adds the key otherwise.
\<close>

fun map_assign :: "(string \<times> string) list \<Rightarrow> string \<Rightarrow> string \<Rightarrow> (string \<times> string) list" where
  "map_assign [] k v = [(k, v)]"
| "map_assign ((k', v') # m) k v =
     (if k' = k then (k, v) # m else (k', v') # map_assign m k v)"

text \<open>The loop over \<open>spec.Process.Env\<close> (lines 62-71).\<close>

fun configMap_loop :: "string list \<Rightarrow> (string \<times> string) list \<Rightarrow> (string \<times> string) list" where
  "configMap_loop [] configMap = configMap"
| "configMap_loop (env # rest) configMap =
     (if \<not> HasPrefix env ExternalRootFSPrefix then configMap_loop rest configMap
      else let t = SplitN env (CHR ''='') (- 1)
           in if length t < 2 then configMap_loop rest configMap
              else configMap_loop rest (map_assign configMap (t ! 0) (t ! 1)))"

text \<open>
  \<open>json.Marshal\<close> of a map writes one object whose keys are sorted (as byte strings),
  and \<open>json.Unmarshal\<close> reads the members of the object in the order written. A value
  that is valid UTF-8 is read back as it was written; the strings of the environment
  are valid UTF-8, since \<open>oci.ReadSpec\<close> decodes them from JSON. Both calls cannot fail
  on a map of strings and a struct of string fields.
\<close>

definition json_members :: "(string \<times> string) list \<Rightarrow> (string \<times> string) list" where
  "json_members configMap = sort_key fst configMap"

text \<open>
  \<open>json.Unmarshal\<close> into a struct "matches incoming object keys to the keys used by
  Marshal (either the struct field name or its tag), preferring an exact match but also
  accepting a case-insensitive match", and ignores a key that matches no field.
  Case-insensitive is equality of the folded names: an ASCII lower-case letter folds to
  its upper-case letter, and the two letters outside ASCII whose fold is in ASCII are
  U+017F (long s, bytes C5 BF), which folds to S, and U+212A (Kelvin sign, bytes E2 84
  AA), which folds to K. Every other byte is kept: a character outside ASCII never folds
  into ASCII, and the names compared with are ASCII.
\<close>

definition foldByte :: "char \<Rightarrow> char" where
  "foldByte c = (if CHR ''a'' \<le> c \<and> c \<le> CHR ''z'' then char_of (of_char c - (32::nat)) else c)"

fun foldName :: "string \<Rightarrow> string" where
  "foldName [] = []"
| "foldName (c # cs) =
     (if c = CHR 0xC5 \<and> take 1 cs = [CHR 0xBF] then CHR ''S'' # foldName (drop 1 cs)
      else if c = CHR 0xE2 \<and> take 2 cs = [CHR 0x84, CHR 0xAA] then CHR ''K'' # foldName (drop 2 cs)
      else foldByte c # foldName cs)"

text \<open>
  The field of a key: the field whose tag is the key, or else the first field whose
  folded tag is the folded key. A field is given by its tag and its assignment.
\<close>

definition lookupField :: "(string \<times> 'f) list \<Rightarrow> string \<Rightarrow> 'f option" where
  "lookupField flds key =
     (case map_of flds key of
        Some f \<Rightarrow> Some f
      | None \<Rightarrow> map_of (map (\<lambda>(tag, f). (foldName tag, f)) flds) (foldName key))"

definition Unmarshal_object ::
  "(string \<times> (string \<Rightarrow> 'c \<Rightarrow> 'c)) list \<Rightarrow> (string \<times> string) list \<Rightarrow> 'c \<Rightarrow> 'c" where
  "Unmarshal_object flds members c0 =
     foldl (\<lambda>c (key, v). case lookupField flds key of None \<Rightarrow> c | Some assign \<Rightarrow> assign v c)
       c0 members"

text \<open>The tags of \<open>ExternalRootFSConfig\<close> (lines 40-46) and the zero value of the struct.\<close>

definition ExternalRootFSConfig_fields ::
  "(string \<times> (string \<Rightarrow> ExternalRootFSConfig \<Rightarrow> ExternalRootFSConfig)) list" where
  "ExternalRootFSConfig_fields =
     [(''EXTERNAL_ROOTFS_DRIVER'', \<lambda>v c. c\<lparr>Driver := v\<rparr>),
      (''EXTERNAL_ROOTFS_OVERLAY_LOWER_PATH'', \<lambda>v c. c\<lparr>OverlayLower := v\<rparr>),
      (''EXTERNAL_ROOTFS_OVERLAY_UPPER_PATH'', \<lambda>v c. c\<lparr>OverlayUpper := v\<rparr>),
      (''EXTERNAL_ROOTFS_DEVICE_NAME'', \<lambda>v c. c\<lparr>Device := v\<rparr>),
      (''EXTERNAL_ROOTFS_DEVICE_FSTYPE'', \<lambda>v c. c\<lparr>DeviceFSType := v\<rparr>),
      (''EXTERNAL_ROOTFS_DEVICE_CONFIG'', \<lambda>v c. c\<lparr>DeviceConfig := v\<rparr>),
      (''EXTERNAL_ROOTFS_DEVICE_MOUNT_OPTS'', \<lambda>v c. c\<lparr>DeviceMountOpts := v\<rparr>)]"

definition ExternalRootFSConfig_zero :: ExternalRootFSConfig where
  "ExternalRootFSConfig_zero =
     \<lparr>Driver = '''', OverlayLower = '''', OverlayUpper = '''', Device = '''',
      DeviceFSType = '''', DeviceConfig = '''', DeviceMountOpts = ''''\<rparr>"

text \<open>Lines 61-83: from the environment list to the configuration.\<close>

definition configFromEnv :: "string list \<Rightarrow> ExternalRootFSConfig" where
  "configFromEnv env =
     Unmarshal_object ExternalRootFSConfig_fields
       (json_members (configMap_loop env [])) ExternalRootFSConfig_zero"

definition ReadExternalRootFSConfigFromENV :: "World \<Rightarrow> string \<Rightarrow> error + ExternalRootFSConfig" where
  "ReadExternalRootFSConfigFromENV w configFile =
     (case oci_ReadSpec w configFile of
        Inl err \<Rightarrow> Inl err
      | Inr spec \<Rightarrow>
          (case Process spec of
             None \<Rightarrow> Inl NilDereference
           | Some p \<Rightarrow> Inr (configFromEnv (Env p))))"

subsection \<open>externalDevice (lines 155-205)\<close>

text \<open>
  The assignments to \<open>fsType\<close>, \<open>device\<close> and \<open>mountOpt\<close> in the order of the source;
  the two early returns inside the first \<open>if\<close> are the \<open>Inl\<close> branches.
\<close>

definition externalDevice :: "World \<Rightarrow> ExternalRootFSConfig \<Rightarrow> error + Mount list" where
  "externalDevice w c =
     (let fsType = ''xfs''; device = ''''; mountOpt = [''rw'']
      in case (if DeviceConfig c \<noteq> '''' then
                 (case os_ReadFile w (DeviceConfig c) of
                    Inl err \<Rightarrow> Inl err
                  | Inr b \<Rightarrow>
                      (case json_Unmarshal_ExtDevice w b of
                         Inl err \<Rightarrow> Inl err
                       | Inr ed \<Rightarrow>
                           Inr (if FilesystemType ed \<noteq> '''' then FilesystemType ed else fsType,
                                ed_Device ed)))
               else Inr (fsType, device)) of
           Inl err \<Rightarrow> Inl err
         | Inr (fsType, device) \<Rightarrow>
             (let fsType = (if DeviceFSType c \<noteq> '''' then DeviceFSType c else fsType);
                  device = (if Device c \<noteq> '''' then Device c else device);
                  mountOpt = (if DeviceMountOpts c \<noteq> ''''
                              then Split (DeviceMountOpts c) (CHR '','') else mountOpt)
              in if device = ''''
                 then Inl (Errorf ''use external deivce as rootfs, but config is empty'')
                 else Inr [\<lparr>Type = fsType, Source = device, Options = mountOpt\<rparr>]))"

subsection \<open>HookMounts (lines 109-153)\<close>

text \<open>
  The body after the configuration has been read (lines 118-152). The mode \<open>0777\<close> is
  octal: \<open>0x1FF\<close>. \<open>fmt.Sprintf("upperdir=%s", upperdir)\<close> appends the string to the
  literal. The log line of \<open>logrus\<close> is left out.
\<close>

definition HookMounts_body ::
  "World \<Rightarrow> Mount list \<Rightarrow> ExternalRootFSConfig \<Rightarrow> (error + Mount list) \<times> event list" where
  "HookMounts_body w mounts c =
     (if Driver c = ExternalRootFSDriverOverlay
         \<and> (length mounts = 1 \<and> Type (mounts ! 0) = ''overlay'') then
        (case ParseOverlayOption (mounts ! 0) of
           (upperdir, lowdir, workdir) \<Rightarrow>
             (let lowdir = (if OverlayLower c \<noteq> '''' then OverlayLower c else lowdir);
                  upperdir = (if OverlayUpper c \<noteq> '''' then OverlayUpper c else upperdir);
                  newMount = \<lparr>Type = ''overlay'', Source = ''overlay'',
                              Options = [''upperdir='' @ upperdir, ''lowerdir='' @ lowdir,
                                         ''workdir='' @ workdir, ''index=off'']\<rparr>
              in if OverlayUpper c \<noteq> '''' then
                   (case os_MkdirAll w upperdir 0x1FF of
                      Some err \<Rightarrow> (Inl err, [Branch_Overlay, Call_MkdirAll upperdir 0x1FF])
                    | None \<Rightarrow> (Inr [newMount], [Branch_Overlay, Call_MkdirAll upperdir 0x1FF]))
                 else (Inr [newMount], [Branch_Overlay])))
      else if Driver c = ExternalRootFSDriverDevice then
        (externalDevice w c, [Branch_Device])
      else (Inr mounts, [Branch_PassThrough]))"

definition HookMounts ::
  "World \<Rightarrow> Mount list \<Rightarrow> string \<Rightarrow> (error + Mount list) \<times> event list" where
  "HookMounts w mounts configPath =
     (case ReadExternalRootFSConfigFromENV w configPath of
        Inl err \<Rightarrow> (Inl err, [])
      | Inr extRootfsConfig \<Rightarrow> HookMounts_body w mounts extRootfsConfig)"

subsection \<open>The second version (lines 206-358)\<close>

text \<open>
  \<open>WriteMounts\<close>, \<open>ParseOverlayOption\<close> and the loop that fills \<open>configMap\<close> are the same
  text in both versions. The struct has five fields (lines 244-250), and \<open>HookMounts\<close>
  builds the device mount itself (lines 346-355).
\<close>

record ExternalRootFSConfig2 =
  Driver2 :: string
  OverlayLower2 :: string
  OverlayUpper2 :: string
  Device2 :: string
  DeviceFSType2 :: string

definition ExternalRootFSConfig2_fields ::
  "(string \<times> (string \<Rightarrow> ExternalRootFSConfig2 \<Rightarrow> ExternalRootFSConfig2)) list" where
  "ExternalRootFSConfig2_fields =
     [(''EXTERNAL_ROOTFS_DRIVER'', \<lambda>v c. c\<lparr>Driver2 := v\<rparr>),
      (''EXTERNAL_ROOTFS_OVERLAY_LOWER_PATH'', \<lambda>v c. c\<lparr>OverlayLower2 := v\<rparr>),
      (''EXTERNAL_ROOTFS_OVERLAY_UPPER_PATH'', \<lambda>v c. c\<lparr>OverlayUpper2 := v\<rparr>),
      (''EXTERNAL_ROOTFS_DEVICE_NAME'', \<lambda>v c. c\<lparr>Device2 := v\<rparr>),
      (''EXTERNAL_ROOTFS_DEVICE_FSTYPE'', \<lambda>v c. c\<lparr>DeviceFSType2 := v\<rparr>)]"

definition ExternalRootFSConfig2_zero :: ExternalRootFSConfig2 where
  "ExternalRootFSConfig2_zero =
     \<lparr>Driver2 = '''', OverlayLower2 = '''', OverlayUpper2 = '''', Device2 = '''',
      DeviceFSType2 = ''''\<rparr>"

definition configFromEnv2 :: "string list \<Rightarrow> ExternalRootFSConfig2" where
  "configFromEnv2 env =
     Unmarshal_object ExternalRootFSConfig2_fields
       (json_members (configMap_loop env [])) ExternalRootFSConfig2_zero"

definition ReadExternalRootFSConfigFromENV2 :: "World \<Rightarrow> string \<Rightarrow> error + ExternalRootFSConfig2" where
  "ReadExternalRootFSConfigFromENV2 w configFile =
     (case oci_ReadSpec w configFile of
        Inl err \<Rightarrow> Inl err
      | Inr spec \<Rightarrow>
          (case Process spec of
             None \<Rightarrow> Inl NilDereference
           | Some p \<Rightarrow> Inr (configFromEnv2 (Env p))))"

definition HookMounts2_body ::
  "World \<Rightarrow> Mount list \<Rightarrow> ExternalRootFSConfig2 \<Rightarrow> (error + Mount list) \<times> event list" where
  "HookMounts2_body w mounts c =
     (if Driver2 c = ExternalRootFSDriverOverlay
         \<and> (length mounts = 1 \<and> Type (mounts ! 0) = ''overlay'') then
        (case ParseOverlayOption (mounts ! 0) of
           (upperdir, lowdir, workdir) \<Rightarrow>
             (let lowdir = (if OverlayLower2 c \<noteq> '''' then OverlayLower2 c else lowdir);
                  upperdir = (if OverlayUpper2 c \<noteq> '''' then OverlayUpper2 c else upperdir);
                  newMount = \<lparr>Type = ''overlay'', Source = ''overlay'',
                              Options = [''upperdir='' @ upperdir, ''lowerdir='' @ lowdir,
                                         ''workdir='' @ workdir, ''index=off'']\<rparr>
              in if OverlayUpper2 c \<noteq> '''' then
                   (case os_MkdirAll w upperdir 0x1FF of
                      Some err \<Rightarrow> (Inl err, [Branch_Overlay, Call_MkdirAll upperdir 0x1FF])
                    | None \<Rightarrow> (Inr [newMount], [Branch_Overlay, Call_MkdirAll upperdir 0x1FF]))
                 else (Inr [newMount], [Branch_Overlay])))
      else if Driver2 c = ExternalRootFSDriverDevice \<and> Device2 c \<noteq> '''' then
        (Inr [\<lparr>Type = DeviceFSType2 c, Source = Device2 c, Options = [''rw'']\<rparr>],
         [Branch_Device])
      else (Inr mounts, [Branch_PassThrough]))"

definition HookMounts2 ::
  "World \<Rightarrow> Mount list \<Rightarrow> string \<Rightarrow> (error + Mount list) \<times> event list" where
  "HookMounts2 w mounts configPath =
     (case ReadExternalRootFSConfigFromENV2 w configPath of
        Inl err \<Rightarrow> (Inl err, [])
      | Inr extRootfsConfig \<Rightarrow> HookMounts2_body w mounts extRootfsConfig)"

subsection \<open>Notions used to state the properties\<close>

text \<open>The options of a list that a prefix test of \<open>ParseOverlayOption\<close> accepts.\<close>

definition selected :: "string \<Rightarrow> string list \<Rightarrow> string list" where
  "selected name opts = filter (\<lambda>option. HasPrefix option name) opts"

text \<open>
  The value that the last accepted option leaves in its variable, or the starting value
  when no option is accepted.
\<close>

definition lastMatch :: "string \<Rightarrow> string \<Rightarrow> string list \<Rightarrow> string" where
  "lastMatch name start opts =
     (case rev (selected name opts) of
        [] \<Rightarrow> start
      | option # _ \<Rightarrow> TrimPrefix option (name @ ''=''))"

text \<open>The environment entries that the loop of \<open>ReadExternalRootFSConfigFromENV\<close> keeps.\<close>

definition prefixed :: "string list \<Rightarrow> string list" where
  "prefixed env = filter (\<lambda>entry. HasPrefix entry ExternalRootFSPrefix) env"

text \<open>The tags of the key-to-field table.\<close>

definition table_keys :: "string list" where
  "table_keys = map fst ExternalRootFSConfig_fields"

text \<open>The five fields of a configuration that the struct of the second version has.\<close>

definition to2 :: "ExternalRootFSConfig \<Rightarrow> ExternalRootFSConfig2" where
  "to2 c = \<lparr>Driver2 = Driver c, OverlayLower2 = OverlayLower c, OverlayUpper2 = OverlayUpper c,
            Device2 = Device c, DeviceFSType2 = DeviceFSType c\<rparr>"

text \<open>
  A world for the examples: the OCI spec at every path has the environment \<open>env\<close>, the
  only readable file is \<open>/run/extdev.json\<close> and decodes to the descriptor \<open>ed\<close>, every
  directory can be created and every file written; \<open>filepath.Join\<close> is shown on paths
  that need no cleaning, and the text of a marshalled mount list is left abstract.
\<close>

definition example_World :: "string list \<Rightarrow> ExtDevice \<Rightarrow> World" where
  "example_World env ed =
     \<lparr>oci_ReadSpec = (\<lambda>path. Inr \<lparr>Process = Some \<lparr>Env = env\<rparr>\<rparr>),
      os_ReadFile = (\<lambda>path. if path = ''/run/extdev.json'' then Inr ''descriptor''
                              else Inl (ExternalError ''no such file or directory'')),
      json_Unmarshal_ExtDevice = (\<lambda>b. if b = ''descriptor'' then Inr ed
                                        else Inl (ExternalError ''invalid character'')),
      os_MkdirAll = (\<lambda>path pm. None),
      json_Marshal_Mounts = (\<lambda>mounts. Inr ''json of the mounts''),
      filepath_Join = (\<lambda>dir name. dir @ ''/'' @ name),
      os_WriteFile = (\<lambda>name b pm. None)\<rparr>"

section \<open>Properties\<close>

subsection \<open>Prefixes\<close>

lemma HasPrefix_Nil: "HasPrefix s []"
  by (simp add: HasPrefix_def)

lemma HasPrefix_Cons: "HasPrefix s (p # ps) \<longleftrightarrow> (\<exists>t. s = p # t \<and> HasPrefix t ps)"
  by (cases s) (auto simp: HasPrefix_def)

lemma HasPrefix_append: "HasPrefix (pre @ s) pre"
  by (simp add: HasPrefix_def)

lemma TrimPrefix_append: "TrimPrefix (pre @ s) pre = s"
  by (simp add: TrimPrefix_def HasPrefix_append)

lemma HasPrefix_append_left: "HasPrefix s (p @ q) \<Longrightarrow> HasPrefix s p"
  by (induction p arbitrary: s) (auto simp: HasPrefix_Nil HasPrefix_Cons)

text \<open>No option passes two of the three prefix tests.\<close>

lemma upperdir_not_lowerdir: "HasPrefix s ''upperdir'' \<Longrightarrow> \<not> HasPrefix s ''lowerdir''"
  by (auto simp: HasPrefix_Cons)

lemma upperdir_not_workdir: "HasPrefix s ''upperdir'' \<Longrightarrow> \<not> HasPrefix s ''workdir''"
  by (auto simp: HasPrefix_Cons)

lemma lowerdir_not_workdir: "HasPrefix s ''lowerdir'' \<Longrightarrow> \<not> HasPrefix s ''workdir''"
  by (auto simp: HasPrefix_Cons)

subsection \<open>ParseOverlayOption\<close>

lemma lastMatch_Nil: "lastMatch name start [] = start"
  by (simp add: lastMatch_def selected_def)

lemma lastMatch_Cons:
  "lastMatch name start (option # opts) =
     lastMatch name (if HasPrefix option name then TrimPrefix option (name @ ''='') else start) opts"
  by (cases "rev (filter (\<lambda>option. HasPrefix option name) opts)")
     (auto simp: lastMatch_def selected_def)

text \<open>
  Each of the three variables ends as the value left by the last option that passes
  its prefix test: the loop is three independent scans.
\<close>

lemma ParseOverlayOption_loop_lastMatch:
  "ParseOverlayOption_loop opts (u, l, w) =
     (lastMatch ''upperdir'' u opts, lastMatch ''lowerdir'' l opts, lastMatch ''workdir'' w opts)"
proof (induction opts arbitrary: u l w)
  case Nil
  show ?case by (simp add: lastMatch_Nil)
next
  case (Cons option opts)
  show ?case
    using upperdir_not_lowerdir [of option] upperdir_not_workdir [of option]
      lowerdir_not_workdir [of option]
    by (simp only: ParseOverlayOption_loop.simps Cons.IH lastMatch_Cons [of _ _ option opts]
          split: if_splits) auto
qed

lemma ParseOverlayOption_lastMatch:
  "ParseOverlayOption m =
     (lastMatch ''upperdir'' '''' (Options m), lastMatch ''lowerdir'' '''' (Options m),
      lastMatch ''workdir'' '''' (Options m))"
  by (simp add: ParseOverlayOption_def ParseOverlayOption_loop_lastMatch)

lemma lastMatch_none: "selected name opts = [] \<Longrightarrow> lastMatch name start opts = start"
  by (simp add: lastMatch_def)

lemma lastMatch_last:
  assumes "HasPrefix option name" and "selected name post = []"
  shows "lastMatch name start (pre @ [option] @ post) = TrimPrefix option (name @ ''='')"
  using assms by (simp add: lastMatch_def selected_def)

lemma lastMatch_single:
  "selected name opts = [name @ ''='' @ v] \<Longrightarrow> lastMatch name start opts = v"
  using TrimPrefix_append [of "name @ ''=''" v] by (simp add: lastMatch_def)

text \<open>
  C7. For every mount whose options hold \<open>upperdir=U\<close>, \<open>lowerdir=L\<close> and \<open>workdir=W\<close>,
  in any order and between any options that pass none of the three prefix tests,
  \<open>ParseOverlayOption\<close> returns exactly \<open>(U, L, W)\<close>. A directory with no option is the
  empty string. When a prefix occurs more than once, the last occurrence gives the
  value. The function is total: it is defined by structural recursion on the option
  list and has no error result.
\<close>

theorem C7_ParseOverlayOption:
  "(selected ''upperdir'' (Options m) = [''upperdir='' @ U] \<and>
    selected ''lowerdir'' (Options m) = [''lowerdir='' @ L] \<and>
    selected ''workdir'' (Options m) = [''workdir='' @ W]
      \<longrightarrow> ParseOverlayOption m = (U, L, W)) \<and>
   (selected ''upperdir'' (Options m) = [] \<longrightarrow> fst (ParseOverlayOption m) = '''') \<and>
   (selected ''lowerdir'' (Options m) = [] \<longrightarrow> fst (snd (ParseOverlayOption m)) = '''') \<and>
   (selected ''workdir'' (Options m) = [] \<longrightarrow> snd (snd (ParseOverlayOption m)) = '''') \<and>
   (Options m = pre @ [''upperdir='' @ U] @ post \<and> selected ''upperdir'' post = []
      \<longrightarrow> fst (ParseOverlayOption m) = U) \<and>
   (Options m = pre @ [''lowerdir='' @ L] @ post \<and> selected ''lowerdir'' post = []
      \<longrightarrow> fst (snd (ParseOverlayOption m)) = L) \<and>
   (Options m = pre @ [''workdir='' @ W] @ post \<and> selected ''workdir'' post = []
      \<longrightarrow> snd (snd (ParseOverlayOption m)) = W)"
proof -
  have single: "selected name (Options m) = [name @ ''='' @ v]
      \<Longrightarrow> lastMatch name '''' (Options m) = v" for name v
    by (rule lastMatch_single)
  have last: "Options m = pre @ [name @ ''='' @ v] @ post \<Longrightarrow> selected name post = []
      \<Longrightarrow> lastMatch name '''' (Options m) = v" for name v
    using lastMatch_last [of "name @ ''='' @ v" name post "''''" pre]
      HasPrefix_append [of name "''='' @ v"] TrimPrefix_append [of "name @ ''=''" v]
    by simp
  show ?thesis
    using single [of "''upperdir''" U] single [of "''lowerdir''" L] single [of "''workdir''" W]
      last [of "''upperdir''" U] last [of "''lowerdir''" L] last [of "''workdir''" W]
    by (simp add: ParseOverlayOption_lastMatch lastMatch_none)
qed

theorem C7_ParseOverlayOption_witness:
  "ParseOverlayOption \<lparr>Type = ''overlay'', Source = ''overlay'',
      Options = [''ro'', ''workdir=/c'', ''upperdir=/a'', ''index=off'', ''lowerdir=/b'']\<rparr>
     = (''/a'', ''/b'', ''/c'') \<and>
   ParseOverlayOption \<lparr>Type = ''overlay'', Source = ''overlay'', Options = [''ro'']\<rparr>
     = ('''', '''', '''') \<and>
   ParseOverlayOption \<lparr>Type = ''overlay'', Source = ''overlay'',
      Options = [''upperdir=/old'', ''lowerdir=/l1'', ''workdir=/w1'', ''upperdir=/new'',
                 ''workdir=/w2'', ''lowerdir=/l2'', ''ro'']\<rparr>
     = (''/new'', ''/l2'', ''/w2'')"
proof -
  let ?m1 = "\<lparr>Type = ''overlay'', Source = ''overlay'',
      Options = [''ro'', ''workdir=/c'', ''upperdir=/a'', ''index=off'', ''lowerdir=/b'']\<rparr>"
  let ?m2 = "\<lparr>Type = ''overlay'', Source = ''overlay'', Options = [''ro'']\<rparr>"
  let ?m3 = "\<lparr>Type = ''overlay'', Source = ''overlay'',
      Options = [''upperdir=/old'', ''lowerdir=/l1'', ''workdir=/w1'', ''upperdir=/new'',
                 ''workdir=/w2'', ''lowerdir=/l2'', ''ro'']\<rparr>"
  have 1: "ParseOverlayOption ?m1 = (''/a'', ''/b'', ''/c'')"
    using C7_ParseOverlayOption [of ?m1 "''/a''" "''/b''" "''/c''"]
    by (simp add: selected_def HasPrefix_def)
  have 2: "ParseOverlayOption ?m2 = ('''', '''', '''')"
    using C7_ParseOverlayOption [of ?m2]
    by (simp add: selected_def HasPrefix_def prod_eq_iff)
  have 3: "ParseOverlayOption ?m3 = (''/new'', ''/l2'', ''/w2'')"
    using C7_ParseOverlayOption [where m = ?m3 and U = "''/new''"
        and pre = "[''upperdir=/old'', ''lowerdir=/l1'', ''workdir=/w1'']"
        and post = "[''workdir=/w2'', ''lowerdir=/l2'', ''ro'']"]
      C7_ParseOverlayOption [where m = ?m3 and L = "''/l2''"
        and pre = "[''upperdir=/old'', ''lowerdir=/l1'', ''workdir=/w1'', ''upperdir=/new'', ''workdir=/w2'']"
        and post = "[''ro'']"]
      C7_ParseOverlayOption [where m = ?m3 and W = "''/w2''"
        and pre = "[''upperdir=/old'', ''lowerdir=/l1'', ''workdir=/w1'', ''upperdir=/new'']"
        and post = "[''lowerdir=/l2'', ''ro'']"]
    by (simp add: selected_def HasPrefix_def prod_eq_iff)
  from 1 2 3 show ?thesis by simp
qed

text \<open>
  C10. The three tests of \<open>ParseOverlayOption\<close> are on the bare prefixes \<open>upperdir\<close>,
  \<open>lowerdir\<close> and \<open>workdir\<close>. An option that starts with \<open>upperdir\<close> but not with
  \<open>upperdir=\<close> (such as \<open>upperdir2=/x\<close>) is taken by the \<open>upperdir\<close> case, and the whole
  option string, untrimmed, becomes the value of \<open>upperdir\<close>: it is the returned upper
  value when no later option starts with \<open>upperdir\<close>. The same holds for \<open>lowerdir\<close>
  and \<open>workdir\<close>.
\<close>

theorem C10_bare_prefix_match:
  "(HasPrefix option ''upperdir'' \<and> \<not> HasPrefix option ''upperdir='' \<longrightarrow>
      ParseOverlayOption_loop (option # rest) (u, l, w)
        = ParseOverlayOption_loop rest (option, l, w) \<and>
      (Options m = pre @ [option] @ post \<and> selected ''upperdir'' post = []
         \<longrightarrow> fst (ParseOverlayOption m) = option)) \<and>
   (HasPrefix option ''lowerdir'' \<and> \<not> HasPrefix option ''lowerdir='' \<longrightarrow>
      ParseOverlayOption_loop (option # rest) (u, l, w)
        = ParseOverlayOption_loop rest (u, option, w) \<and>
      (Options m = pre @ [option] @ post \<and> selected ''lowerdir'' post = []
         \<longrightarrow> fst (snd (ParseOverlayOption m)) = option)) \<and>
   (HasPrefix option ''workdir'' \<and> \<not> HasPrefix option ''workdir='' \<longrightarrow>
      ParseOverlayOption_loop (option # rest) (u, l, w)
        = ParseOverlayOption_loop rest (u, l, option) \<and>
      (Options m = pre @ [option] @ post \<and> selected ''workdir'' post = []
         \<longrightarrow> snd (snd (ParseOverlayOption m)) = option))"
proof -
  have whole: "HasPrefix option name \<Longrightarrow> \<not> HasPrefix option (name @ ''='')
      \<Longrightarrow> Options m = pre @ [option] @ post \<Longrightarrow> selected name post = []
      \<Longrightarrow> lastMatch name '''' (Options m) = option" for name
    using lastMatch_last [of option name post "''''" pre] by (simp add: TrimPrefix_def)
  have upper: ?thesis if "HasPrefix option ''upperdir''"
    using that whole [of "''upperdir''"] upperdir_not_lowerdir [of option]
      upperdir_not_workdir [of option]
    by (simp add: TrimPrefix_def ParseOverlayOption_lastMatch)
  have lower: ?thesis if "HasPrefix option ''lowerdir''"
    using that whole [of "''lowerdir''"] upperdir_not_lowerdir [of option]
      lowerdir_not_workdir [of option]
    by (auto simp add: TrimPrefix_def ParseOverlayOption_lastMatch)
  have work: ?thesis if "HasPrefix option ''workdir''"
    using that whole [of "''workdir''"] upperdir_not_workdir [of option]
      lowerdir_not_workdir [of option]
    by (auto simp add: TrimPrefix_def ParseOverlayOption_lastMatch)
  show ?thesis
    using upper lower work by blast
qed

theorem C10_bare_prefix_match_witness:
  "ParseOverlayOption \<lparr>Type = ''overlay'', Source = ''overlay'',
      Options = [''upperdir=/a'', ''upperdir2=/x'', ''ro'']\<rparr> = (''upperdir2=/x'', '''', '''') \<and>
   ParseOverlayOption \<lparr>Type = ''overlay'', Source = ''overlay'',
      Options = [''lowerdir=/b'', ''lowerdir'']\<rparr> = ('''', ''lowerdir'', '''') \<and>
   ParseOverlayOption \<lparr>Type = ''overlay'', Source = ''overlay'',
      Options = [''workdir_old=/w'', ''index=off'']\<rparr> = ('''', '''', ''workdir_old=/w'')"
proof -
  let ?m1 = "\<lparr>Type = ''overlay'', Source = ''overlay'',
      Options = [''upperdir=/a'', ''upperdir2=/x'', ''ro'']\<rparr>"
  let ?m2 = "\<lparr>Type = ''overlay'', Source = ''overlay'',
      Options = [''lowerdir=/b'', ''lowerdir'']\<rparr>"
  let ?m3 = "\<lparr>Type = ''overlay'', Source = ''overlay'',
      Options = [''workdir_old=/w'', ''index=off'']\<rparr>"
  have 1: "fst (ParseOverlayOption ?m1) = ''upperdir2=/x''"
    using C10_bare_prefix_match [where option = "''upperdir2=/x''" and m = ?m1
        and pre = "[''upperdir=/a'']" and post = "[''ro'']"]
    by (simp add: selected_def HasPrefix_def)
  have 2: "fst (snd (ParseOverlayOption ?m2)) = ''lowerdir''"
    using C10_bare_prefix_match [where option = "''lowerdir''" and m = ?m2
        and pre = "[''lowerdir=/b'']" and post = "[]"]
    by (simp add: selected_def HasPrefix_def)
  have 3: "snd (snd (ParseOverlayOption ?m3)) = ''workdir_old=/w''"
    using C10_bare_prefix_match [where option = "''workdir_old=/w''" and m = ?m3
        and pre = "[]" and post = "[''index=off'']"]
    by (simp add: selected_def HasPrefix_def)
  have rest: "snd (ParseOverlayOption ?m1) = ('''', '''')"
    "fst (ParseOverlayOption ?m2) = ''''" "snd (snd (ParseOverlayOption ?m2)) = ''''"
    "fst (ParseOverlayOption ?m3) = ''''" "fst (snd (ParseOverlayOption ?m3)) = ''''"
    by (simp_all add: ParseOverlayOption_def HasPrefix_def TrimPrefix_def)
  from 1 2 3 rest show ?thesis by (simp add: prod_eq_iff)
qed

subsection \<open>The configuration read from the environment\<close>

lemma configMap_loop_append:
  "configMap_loop (a @ b) m = configMap_loop b (configMap_loop a m)"
  by (induction a arbitrary: m) (simp_all add: Let_def)

lemma configMap_loop_prefixed: "configMap_loop env m = configMap_loop (prefixed env) m"
  by (induction env arbitrary: m) (simp_all add: prefixed_def Let_def)

lemma configFromEnv_prefixed: "configFromEnv env = configFromEnv (prefixed env)"
  using configMap_loop_prefixed [of env "[]"] by (simp add: configFromEnv_def)

lemma dropWhile_no_sep: "sep \<notin> set s \<Longrightarrow> dropWhile (\<lambda>c. c \<noteq> sep) (s @ t) = dropWhile (\<lambda>c. c \<noteq> sep) t"
  by (induction s) auto

lemma takeWhile_no_sep: "sep \<notin> set s \<Longrightarrow> takeWhile (\<lambda>c. c \<noteq> sep) (s @ t) = s @ takeWhile (\<lambda>c. c \<noteq> sep) t"
  by (induction s) auto

lemma dropWhile_all: "sep \<notin> set s \<Longrightarrow> dropWhile (\<lambda>c. c \<noteq> sep) s = []"
  by (induction s) auto

lemma takeWhile_all: "sep \<notin> set s \<Longrightarrow> takeWhile (\<lambda>c. c \<noteq> sep) s = s"
  by (induction s) auto

lemma genSplit_loop_no_sep: "sep \<notin> set s \<Longrightarrow> genSplit_loop sep k s = [s]"
  by (cases k) (simp_all add: dropWhile_all)

lemma Count_le_length: "Count s sep \<le> length s"
  by (simp add: Count_def)

lemma SplitN_all: "SplitN s sep (- 1) = genSplit_loop sep (Count s sep) s"
  using Count_le_length [of s sep] by (simp add: SplitN_def Let_def)

lemma Count_append: "Count (a @ b) sep = Count a sep + Count b sep"
  by (simp add: Count_def)

lemma Count_0: "sep \<notin> set s \<Longrightarrow> Count s sep = 0"
  by (auto simp: Count_def filter_empty_conv)

lemma SplitN_no_sep: "sep \<notin> set s \<Longrightarrow> SplitN s sep (- 1) = [s]"
  by (simp add: SplitN_all genSplit_loop_no_sep)

lemma genSplit_loop_first:
  "sep \<notin> set key \<Longrightarrow> genSplit_loop sep (Suc k) (key @ sep # rest) = key # genSplit_loop sep k rest"
  by (simp add: dropWhile_no_sep takeWhile_no_sep)

lemma genSplit_loop_Count_hd:
  "\<exists>tl. genSplit_loop sep (Count s sep) s = takeWhile (\<lambda>c. c \<noteq> sep) s # tl"
proof (cases "sep \<in> set s")
  case False
  then show ?thesis
    by (simp add: genSplit_loop_no_sep takeWhile_all)
next
  case True
  then obtain a b where s: "s = a @ sep # b" and a: "sep \<notin> set a"
    by (meson split_list_first)
  have "Count s sep = Suc (Count b sep)"
    using a by (simp add: s Count_append Count_0) (simp add: Count_def)
  then show ?thesis
    using genSplit_loop_first [OF a, of "Count b sep" b] takeWhile_no_sep [OF a, of "sep # b"]
    by (simp add: s del: genSplit_loop.simps)
qed

lemma SplitN_key_value:
  assumes "CHR ''='' \<notin> set key"
  shows "\<exists>tl. SplitN (key @ CHR ''='' # rest) (CHR ''='') (- 1)
              = key # takeWhile (\<lambda>c. c \<noteq> CHR ''='') rest # tl"
proof -
  have c: "Count (key @ CHR ''='' # rest) (CHR ''='') = Suc (Count rest (CHR ''=''))"
    using assms by (simp add: Count_append Count_0) (simp add: Count_def)
  show ?thesis
    using genSplit_loop_first [OF assms, of "Count rest (CHR ''='')" rest]
      genSplit_loop_Count_hd [of "CHR ''=''" rest]
    by (simp add: SplitN_all c del: genSplit_loop.simps)
qed

lemma Unmarshal_object_Cons:
  "Unmarshal_object flds ((key, v) # members) c =
     Unmarshal_object flds members
       (case lookupField flds key of None \<Rightarrow> c | Some assign \<Rightarrow> assign v c)"
  by (simp add: Unmarshal_object_def)

lemma Unmarshal_object_Nil: "Unmarshal_object flds [] c = c"
  by (simp add: Unmarshal_object_def)

lemma Unmarshal_object_matching:
  "Unmarshal_object flds members c =
     Unmarshal_object flds (filter (\<lambda>(key, v). lookupField flds key \<noteq> None) members) c"
  by (induction members arbitrary: c)
     (auto simp: Unmarshal_object_Cons Unmarshal_object_Nil split: option.splits)

lemma filter_map_assign:
  "filter (\<lambda>(key, v). Q key) (map_assign m k v) =
     (if Q k then map_assign (filter (\<lambda>(key, v). Q key) m) k v
      else filter (\<lambda>(key, v). Q key) m)"
  by (induction m) auto

lemma filter_configMap_loop:
  "filter (\<lambda>(key, v). Q key) m1 = filter (\<lambda>(key, v). Q key) m2 \<Longrightarrow>
   filter (\<lambda>(key, v). Q key) (configMap_loop env m1)
     = filter (\<lambda>(key, v). Q key) (configMap_loop env m2)"
proof (induction env arbitrary: m1 m2)
  case Nil
  then show ?case by simp
next
  case (Cons entry env)
  show ?case
    using Cons.prems
    by (auto simp: Let_def filter_map_assign intro!: Cons.IH)
qed

lemma lookupField_None:
  "lookupField flds key = None \<longleftrightarrow> foldName key \<notin> set (map (foldName \<circ> fst) flds)"
proof -
  have m: "map_of (map (\<lambda>(tag, f). (foldName tag, f)) flds) k = None
             \<longleftrightarrow> k \<notin> set (map (foldName \<circ> fst) flds)" for k
    by (induction flds) auto
  have e: "map_of flds key = Some f \<Longrightarrow> foldName key \<in> set (map (foldName \<circ> fst) flds)" for f
    by (induction flds) (auto split: if_splits)
  show ?thesis
    using e by (auto simp: lookupField_def m split: option.splits)
qed

lemma configFromEnv_unmatched_entry:
  assumes "lookupField ExternalRootFSConfig_fields (SplitN entry (CHR ''='') (- 1) ! 0) = None"
  shows "configFromEnv (pre @ [entry] @ post) = configFromEnv (pre @ post)"
proof -
  let ?Q = "\<lambda>key. lookupField ExternalRootFSConfig_fields key \<noteq> None"
  let ?m = "configMap_loop pre []"
  have "filter (\<lambda>(key, v). ?Q key) (configMap_loop [entry] ?m) = filter (\<lambda>(key, v). ?Q key) ?m"
    using assms by (simp add: Let_def filter_map_assign)
  then have "filter (\<lambda>(key, v). ?Q key) (configMap_loop post (configMap_loop [entry] ?m))
               = filter (\<lambda>(key, v). ?Q key) (configMap_loop post ?m)"
    by (rule filter_configMap_loop)
  moreover have "configMap_loop (pre @ [entry] @ post) []
                   = configMap_loop post (configMap_loop [entry] ?m)"
    and "configMap_loop (pre @ post) [] = configMap_loop post ?m"
    by (simp_all only: configMap_loop_append)
  ultimately have "filter (\<lambda>(key, v). ?Q key) (json_members (configMap_loop (pre @ [entry] @ post) []))
               = filter (\<lambda>(key, v). ?Q key) (json_members (configMap_loop (pre @ post) []))"
    by (simp only: json_members_def filter_sort)
  then show ?thesis
    using Unmarshal_object_matching [of ExternalRootFSConfig_fields
        "json_members (configMap_loop (pre @ [entry] @ post) [])" ExternalRootFSConfig_zero]
      Unmarshal_object_matching [of ExternalRootFSConfig_fields
        "json_members (configMap_loop (pre @ post) [])" ExternalRootFSConfig_zero]
    by (simp add: configFromEnv_def)
qed

lemma foldName_table_keys: "map foldName table_keys = table_keys"
  by (simp add: table_keys_def ExternalRootFSConfig_fields_def foldByte_def)

lemma HasPrefix_key:
  "HasPrefix key pre \<Longrightarrow> HasPrefix (key @ rest) pre"
  by (simp add: HasPrefix_def)

text \<open>
  What the loop stores for an entry \<open>key=rest\<close>: the text between the first and the
  second \<open>=\<close>. An entry with no \<open>=\<close> is skipped.
\<close>

lemma configMap_loop_entry_value:
  assumes "HasPrefix key ExternalRootFSPrefix" and "CHR ''='' \<notin> set key"
  shows "configMap_loop ((key @ ''='' @ rest) # env) m
           = configMap_loop env (map_assign m key (takeWhile (\<lambda>c. c \<noteq> CHR ''='') rest))"
proof -
  obtain tl where "SplitN (key @ CHR ''='' # rest) (CHR ''='') (- 1)
      = key # takeWhile (\<lambda>c. c \<noteq> CHR ''='') rest # tl"
    using SplitN_key_value [OF assms(2)] by blast
  then show ?thesis
    using HasPrefix_key [OF assms(1), of "CHR ''='' # rest"] by (simp add: Let_def)
qed

lemma configMap_loop_no_equals:
  assumes "CHR ''='' \<notin> set entry"
  shows "configMap_loop (entry # env) m = configMap_loop env m"
  using assms by (simp add: SplitN_no_sep Let_def)

text \<open>
  C6. An entry kept by the loop of \<open>ReadExternalRootFSConfigFromENV\<close> is cut at every
  \<open>=\<close> (\<open>strings.SplitN\<close> with \<open>n = -1\<close>), and the value stored is the second piece:
  the text between the first and the second \<open>=\<close>, not the whole remainder after the
  first. \<open>EXTERNAL_ROOTFS_DEVICE_MOUNT_OPTS=rw,logbsize=256k\<close> stores \<open>rw,logbsize\<close>, and
  an entry \<open>KEY=a=b\<close> stores \<open>a\<close>. With \<open>n = 2\<close> the second piece would be the whole
  remainder. An entry with no \<open>=\<close> is skipped.
\<close>

theorem C6_value_cut_at_second_equals:
  "configMap_loop [''EXTERNAL_ROOTFS_DEVICE_MOUNT_OPTS=rw,logbsize=256k''] []
     = [(''EXTERNAL_ROOTFS_DEVICE_MOUNT_OPTS'', ''rw,logbsize'')] \<and>
   DeviceMountOpts (configFromEnv [''EXTERNAL_ROOTFS_DEVICE_MOUNT_OPTS=rw,logbsize=256k''])
     = ''rw,logbsize'' \<and>
   configMap_loop [''EXTERNAL_ROOTFS_KEY=a=b''] [] = [(''EXTERNAL_ROOTFS_KEY'', ''a'')] \<and>
   SplitN ''EXTERNAL_ROOTFS_KEY=a=b'' (CHR ''='') (- 1) = [''EXTERNAL_ROOTFS_KEY'', ''a'', ''b''] \<and>
   SplitN ''EXTERNAL_ROOTFS_KEY=a=b'' (CHR ''='') 2 = [''EXTERNAL_ROOTFS_KEY'', ''a=b''] \<and>
   configMap_loop [''EXTERNAL_ROOTFS_DRIVER''] [] = []"
  by code_simp

lemma configFromEnv_prefixed_eq:
  "prefixed env1 = prefixed env2 \<Longrightarrow> configFromEnv env1 = configFromEnv env2"
  using configFromEnv_prefixed [of env1] configFromEnv_prefixed [of env2] by simp

lemma SplitN_key: "CHR ''='' \<notin> set key \<Longrightarrow> SplitN (key @ ''='' @ v) (CHR ''='') (- 1) ! 0 = key"
  using SplitN_key_value [of key v] by auto

text \<open>
  C8, as it holds of the code. Entries that do not start with \<open>EXTERNAL_ROOTFS_\<close> have no effect on
  the configuration: two environments with the same prefixed entries give the same
  record. An entry whose key matches no key of the table, neither exactly nor after
  case folding (the match of \<open>json.Unmarshal\<close>), has no effect either, and decoding the
  environment adds no error to those of reading the spec.
\<close>

theorem C8_prefix_isolation:
  "(prefixed env1 = prefixed env2 \<longrightarrow> configFromEnv env1 = configFromEnv env2) \<and>
   (CHR ''='' \<notin> set key \<and> foldName key \<notin> set table_keys \<longrightarrow>
      configFromEnv (pre @ [key @ ''='' @ v] @ post) = configFromEnv (pre @ post)) \<and>
   (oci_ReadSpec w configFile = Inr spec \<and> Process spec = Some p \<longrightarrow>
      ReadExternalRootFSConfigFromENV w configFile = Inr (configFromEnv (Env p)))"
proof -
  have "map (foldName \<circ> fst) ExternalRootFSConfig_fields = map foldName table_keys"
    by (simp only: table_keys_def map_map)
  then have t: "set (map (foldName \<circ> fst) ExternalRootFSConfig_fields) = set table_keys"
    by (simp only: foldName_table_keys)
  have unmatched: "configFromEnv (pre @ [key @ ''='' @ v] @ post) = configFromEnv (pre @ post)"
    if k: "CHR ''='' \<notin> set key" and f: "foldName key \<notin> set table_keys"
  proof -
    have "foldName key \<notin> set (map (foldName \<circ> fst) ExternalRootFSConfig_fields)"
      using f unfolding t .
    then have "lookupField ExternalRootFSConfig_fields key = None"
      unfolding lookupField_None .
    then have "lookupField ExternalRootFSConfig_fields
            (SplitN (key @ ''='' @ v) (CHR ''='') (- 1) ! 0) = None"
      unfolding SplitN_key [OF k] .
    then show ?thesis
      by (rule configFromEnv_unmatched_entry)
  qed
  have read: "ReadExternalRootFSConfigFromENV w configFile = Inr (configFromEnv (Env p))"
    if "oci_ReadSpec w configFile = Inr spec" and "Process spec = Some p"
    using that by (simp add: ReadExternalRootFSConfigFromENV_def)
  show ?thesis
    using configFromEnv_prefixed_eq [of env1 env2] unmatched read by blast
qed

theorem C8_prefix_isolation_witness:
  "prefixed [''PATH=/bin'', ''EXTERNAL_ROOTFS_DRIVER=overlay'', ''HOME=/root'']
     = prefixed [''EXTERNAL_ROOTFS_DRIVER=overlay'', ''TERM=xterm''] \<and>
   configFromEnv [''PATH=/bin'', ''EXTERNAL_ROOTFS_DRIVER=overlay'', ''HOME=/root'']
     = configFromEnv [''EXTERNAL_ROOTFS_DRIVER=overlay'', ''TERM=xterm''] \<and>
   CHR ''='' \<notin> set ''EXTERNAL_ROOTFS_COLOR'' \<and>
   foldName ''EXTERNAL_ROOTFS_COLOR'' \<notin> set table_keys \<and>
   configFromEnv ([''EXTERNAL_ROOTFS_DRIVER=device''] @ [''EXTERNAL_ROOTFS_COLOR'' @ ''='' @ ''blue'']
       @ [''EXTERNAL_ROOTFS_DEVICE_NAME=/dev/a''])
     = configFromEnv ([''EXTERNAL_ROOTFS_DRIVER=device''] @ [''EXTERNAL_ROOTFS_DEVICE_NAME=/dev/a'']) \<and>
   ReadExternalRootFSConfigFromENV
       (example_World [''EXTERNAL_ROOTFS_COLOR=blue''] \<lparr>ed_Device = '''', FilesystemType = ''''\<rparr>)
       ''config.json''
     = Inr (configFromEnv [''EXTERNAL_ROOTFS_COLOR=blue''])"
proof -
  have 1: "prefixed [''PATH=/bin'', ''EXTERNAL_ROOTFS_DRIVER=overlay'', ''HOME=/root'']
     = prefixed [''EXTERNAL_ROOTFS_DRIVER=overlay'', ''TERM=xterm'']"
    by (simp add: prefixed_def HasPrefix_def ExternalRootFSPrefix_def)
  have 2: "CHR ''='' \<notin> set ''EXTERNAL_ROOTFS_COLOR''"
    by simp
  have 3: "foldName ''EXTERNAL_ROOTFS_COLOR'' \<notin> set table_keys"
    by (simp add: table_keys_def ExternalRootFSConfig_fields_def foldByte_def)
  have 4: "oci_ReadSpec (example_World [''EXTERNAL_ROOTFS_COLOR=blue'']
             \<lparr>ed_Device = '''', FilesystemType = ''''\<rparr>) ''config.json''
           = Inr \<lparr>Process = Some \<lparr>Env = [''EXTERNAL_ROOTFS_COLOR=blue'']\<rparr>\<rparr>"
    by (simp add: example_World_def)
  show ?thesis
    using 1 2 3 4
      C8_prefix_isolation [of
        "[''PATH=/bin'', ''EXTERNAL_ROOTFS_DRIVER=overlay'', ''HOME=/root'']"
        "[''EXTERNAL_ROOTFS_DRIVER=overlay'', ''TERM=xterm'']"
        "''EXTERNAL_ROOTFS_COLOR''" "[''EXTERNAL_ROOTFS_DRIVER=device'']" "''blue''"
        "[''EXTERNAL_ROOTFS_DEVICE_NAME=/dev/a'']"
        "example_World [''EXTERNAL_ROOTFS_COLOR=blue''] \<lparr>ed_Device = '''', FilesystemType = ''''\<rparr>"
        "''config.json''" "\<lparr>Process = Some \<lparr>Env = [''EXTERNAL_ROOTFS_COLOR=blue'']\<rparr>\<rparr>"
        "\<lparr>Env = [''EXTERNAL_ROOTFS_COLOR=blue'']\<rparr>"]
    by simp
qed

text \<open>
  The key \<open>EXTERNAL_ROOTFS_driver\<close> is under the prefix and is not a key of the table,
  yet its entry sets the driver: the field match of \<open>json.Unmarshal\<close> is
  case-insensitive.
\<close>

theorem C8_unlisted_key_counterexample:
  "HasPrefix ''EXTERNAL_ROOTFS_driver'' ExternalRootFSPrefix \<and>
   ''EXTERNAL_ROOTFS_driver'' \<notin> set table_keys \<and>
   Driver (configFromEnv [''EXTERNAL_ROOTFS_driver=device'']) = ''device'' \<and>
   configFromEnv [''EXTERNAL_ROOTFS_driver=device''] \<noteq> configFromEnv []"
proof -
  have "Driver (configFromEnv [''EXTERNAL_ROOTFS_driver=device'']) = ''device''"
    and "Driver (configFromEnv []) = ''''"
    by code_simp+
  moreover have "HasPrefix ''EXTERNAL_ROOTFS_driver'' ExternalRootFSPrefix"
    and "''EXTERNAL_ROOTFS_driver'' \<notin> set table_keys"
    by (simp_all add: HasPrefix_def ExternalRootFSPrefix_def table_keys_def
          ExternalRootFSConfig_fields_def)
  ultimately show ?thesis by auto
qed

subsection \<open>WriteMounts\<close>

text \<open>
  C9. \<open>WriteMounts\<close> on an empty mount list returns nil and makes no call that writes.
  On a non-empty list whose JSON text is \<open>b\<close>, it makes exactly one call, \<open>os.WriteFile\<close>
  of \<open>b\<close> with mode \<open>0600\<close> to the file \<open>mounts.json\<close> joined to \<open>path\<close>, and returns the
  result of that call. When the call succeeds, the file holds \<open>b\<close> whatever it held
  before: an existing file is overwritten (and keeps its mode), a missing one is created
  with mode \<open>0600\<close> less the umask.
\<close>

theorem C9_WriteMounts:
  "(mounts = [] \<longrightarrow> WriteMounts w path mounts = (None, [])) \<and>
   (mounts \<noteq> [] \<and> json_Marshal_Mounts w mounts = Inr b \<longrightarrow>
      WriteMounts w path mounts =
        (os_WriteFile w (filepath_Join w path ''mounts.json'') b 0x180,
         [Call_WriteFile (filepath_Join w path ''mounts.json'') b 0x180])) \<and>
   (mounts \<noteq> [] \<and> json_Marshal_Mounts w mounts = Inr b \<and>
    fs (filepath_Join w path ''mounts.json'') = Some old \<longrightarrow>
      foldl (run_event umask) fs (snd (WriteMounts w path mounts))
          (filepath_Join w path ''mounts.json'')
        = Some (old\<lparr>contents := b\<rparr>)) \<and>
   (mounts \<noteq> [] \<and> json_Marshal_Mounts w mounts = Inr b \<and>
    fs (filepath_Join w path ''mounts.json'') = None \<longrightarrow>
      foldl (run_event umask) fs (snd (WriteMounts w path mounts))
          (filepath_Join w path ''mounts.json'')
        = Some \<lparr>contents = b, perm = and 0x180 (not umask)\<rparr>)"
  by (simp add: WriteMounts_def Let_def)

theorem C9_WriteMounts_witness:
  "WriteMounts (example_World [] \<lparr>ed_Device = '''', FilesystemType = ''''\<rparr>) ''/run/task'' []
     = (None, []) \<and>
   WriteMounts (example_World [] \<lparr>ed_Device = '''', FilesystemType = ''''\<rparr>) ''/run/task''
       [\<lparr>Type = ''xfs'', Source = ''/dev/a'', Options = [''rw'']\<rparr>]
     = (None, [Call_WriteFile ''/run/task/mounts.json'' ''json of the mounts'' 0x180]) \<and>
   foldl (run_event 0x12)
       [''/run/task/mounts.json'' \<mapsto> \<lparr>contents = ''old'', perm = 0x1A4\<rparr>]
       (snd (WriteMounts (example_World [] \<lparr>ed_Device = '''', FilesystemType = ''''\<rparr>)
          ''/run/task'' [\<lparr>Type = ''xfs'', Source = ''/dev/a'', Options = [''rw'']\<rparr>]))
       ''/run/task/mounts.json''
     = Some \<lparr>contents = ''json of the mounts'', perm = 0x1A4\<rparr> \<and>
   foldl (run_event 0x12) Map.empty
       (snd (WriteMounts (example_World [] \<lparr>ed_Device = '''', FilesystemType = ''''\<rparr>)
          ''/run/task'' [\<lparr>Type = ''xfs'', Source = ''/dev/a'', Options = [''rw'']\<rparr>]))
       ''/run/task/mounts.json''
     = Some \<lparr>contents = ''json of the mounts'', perm = 0x180\<rparr>"
proof -
  let ?w = "example_World [] \<lparr>ed_Device = '''', FilesystemType = ''''\<rparr>"
  let ?ms = "[\<lparr>Type = ''xfs'', Source = ''/dev/a'', Options = [''rw'']\<rparr>]"
  let ?old = "\<lparr>contents = ''old'', perm = 0x1A4\<rparr>"
  have m: "json_Marshal_Mounts ?w ?ms = Inr ''json of the mounts''"
    and j: "filepath_Join ?w ''/run/task'' ''mounts.json'' = ''/run/task/mounts.json''"
    and wr: "os_WriteFile ?w ''/run/task/mounts.json'' ''json of the mounts'' 0x180 = None"
    by (simp_all add: example_World_def)
  have u: "and (0x180 :: 32 word) (not 0x12) = 0x180"
    by simp
  have 1: "WriteMounts ?w ''/run/task'' [] = (None, [])"
    using C9_WriteMounts [where mounts = "[]" and w = ?w and path = "''/run/task''"] by simp
  have 2: "WriteMounts ?w ''/run/task'' ?ms
     = (None, [Call_WriteFile ''/run/task/mounts.json'' ''json of the mounts'' 0x180])"
    using C9_WriteMounts [where mounts = ?ms and w = ?w and b = "''json of the mounts''"
        and path = "''/run/task''"] m j wr
    by simp
  have 3: "foldl (run_event 0x12) [''/run/task/mounts.json'' \<mapsto> ?old]
       (snd (WriteMounts ?w ''/run/task'' ?ms)) ''/run/task/mounts.json''
     = Some \<lparr>contents = ''json of the mounts'', perm = 0x1A4\<rparr>"
    using C9_WriteMounts [where mounts = ?ms and w = ?w and b = "''json of the mounts''"
        and path = "''/run/task''" and fs = "[''/run/task/mounts.json'' \<mapsto> ?old]"
        and old = ?old and umask = "0x12"] m j
    by simp
  have 4: "foldl (run_event 0x12) Map.empty
       (snd (WriteMounts ?w ''/run/task'' ?ms)) ''/run/task/mounts.json''
     = Some \<lparr>contents = ''json of the mounts'', perm = 0x180\<rparr>"
    using C9_WriteMounts [where mounts = ?ms and w = ?w and b = "''json of the mounts''"
        and path = "''/run/task''" and fs = Map.empty and umask = "0x12"] m j u
    by simp
  from 1 2 3 4 show ?thesis by blast
qed

subsection \<open>externalDevice\<close>

text \<open>
  C1. \<open>externalDevice\<close> starts from the file system type \<open>xfs\<close>, an empty device and
  the options \<open>[rw]\<close>, and layers in this order: the descriptor file (its \<open>fs_type\<close> only
  when non-empty, its \<open>device\<close> always), then \<open>DeviceFSType\<close>, then \<open>Device\<close>, each when
  non-empty, and \<open>DeviceMountOpts\<close>, when non-empty, split at every comma, in place of
  \<open>[rw]\<close>. With a descriptor of device \<open>/dev/a\<close> and empty \<open>fs_type\<close>, an empty \<open>Device\<close>,
  \<open>DeviceFSType\<close> \<open>ext4\<close> and no mount options, the result is the single mount of type
  \<open>ext4\<close>, source \<open>/dev/a\<close> and options \<open>[rw]\<close>.
\<close>

theorem C1_externalDevice_layering:
  "(DeviceConfig c = '''' \<longrightarrow>
      externalDevice w c =
        (if Device c = '''' then Inl (Errorf ''use external deivce as rootfs, but config is empty'')
         else Inr [\<lparr>Type = (if DeviceFSType c \<noteq> '''' then DeviceFSType c else ''xfs''),
                    Source = Device c,
                    Options = (if DeviceMountOpts c \<noteq> ''''
                               then Split (DeviceMountOpts c) (CHR '','') else [''rw''])\<rparr>])) \<and>
   (DeviceConfig c \<noteq> '''' \<and> os_ReadFile w (DeviceConfig c) = Inr b \<and>
    json_Unmarshal_ExtDevice w b = Inr ed \<longrightarrow>
      externalDevice w c =
        (if Device c = '''' \<and> ed_Device ed = ''''
         then Inl (Errorf ''use external deivce as rootfs, but config is empty'')
         else Inr [\<lparr>Type = (if DeviceFSType c \<noteq> '''' then DeviceFSType c
                            else if FilesystemType ed \<noteq> '''' then FilesystemType ed
                            else ''xfs''),
                    Source = (if Device c \<noteq> '''' then Device c else ed_Device ed),
                    Options = (if DeviceMountOpts c \<noteq> ''''
                               then Split (DeviceMountOpts c) (CHR '','') else [''rw''])\<rparr>])) \<and>
   (DeviceConfig c \<noteq> '''' \<and> os_ReadFile w (DeviceConfig c) = Inr b \<and>
    json_Unmarshal_ExtDevice w b = Inr \<lparr>ed_Device = ''/dev/a'', FilesystemType = ''''\<rparr> \<and>
    Device c = '''' \<and> DeviceFSType c = ''ext4'' \<and> DeviceMountOpts c = '''' \<longrightarrow>
      externalDevice w c = Inr [\<lparr>Type = ''ext4'', Source = ''/dev/a'', Options = [''rw'']\<rparr>])"
  by (simp add: externalDevice_def Let_def)

theorem C1_externalDevice_layering_witness:
  "externalDevice
     (example_World [] \<lparr>ed_Device = ''/dev/a'', FilesystemType = ''''\<rparr>)
     \<lparr>Driver = ''device'', OverlayLower = '''', OverlayUpper = '''', Device = '''',
      DeviceFSType = ''ext4'', DeviceConfig = ''/run/extdev.json'', DeviceMountOpts = ''''\<rparr>
     = Inr [\<lparr>Type = ''ext4'', Source = ''/dev/a'', Options = [''rw'']\<rparr>] \<and>
   externalDevice
     (example_World [] \<lparr>ed_Device = ''/dev/a'', FilesystemType = ''btrfs''\<rparr>)
     \<lparr>Driver = ''device'', OverlayLower = '''', OverlayUpper = '''', Device = ''/dev/b'',
      DeviceFSType = '''', DeviceConfig = ''/run/extdev.json'',
      DeviceMountOpts = ''ro,noatime''\<rparr>
     = Inr [\<lparr>Type = ''btrfs'', Source = ''/dev/b'', Options = [''ro'', ''noatime'']\<rparr>] \<and>
   externalDevice
     (example_World [] \<lparr>ed_Device = ''/dev/a'', FilesystemType = ''btrfs''\<rparr>)
     \<lparr>Driver = ''device'', OverlayLower = '''', OverlayUpper = '''', Device = ''/dev/b'',
      DeviceFSType = '''', DeviceConfig = '''', DeviceMountOpts = ''''\<rparr>
     = Inr [\<lparr>Type = ''xfs'', Source = ''/dev/b'', Options = [''rw'']\<rparr>]"
proof -
  let ?w1 = "example_World [] \<lparr>ed_Device = ''/dev/a'', FilesystemType = ''''\<rparr>"
  let ?w2 = "example_World [] \<lparr>ed_Device = ''/dev/a'', FilesystemType = ''btrfs''\<rparr>"
  let ?c1 = "\<lparr>Driver = ''device'', OverlayLower = '''', OverlayUpper = '''', Device = '''',
      DeviceFSType = ''ext4'', DeviceConfig = ''/run/extdev.json'', DeviceMountOpts = ''''\<rparr>"
  let ?c2 = "\<lparr>Driver = ''device'', OverlayLower = '''', OverlayUpper = '''', Device = ''/dev/b'',
      DeviceFSType = '''', DeviceConfig = ''/run/extdev.json'',
      DeviceMountOpts = ''ro,noatime''\<rparr>"
  let ?c3 = "\<lparr>Driver = ''device'', OverlayLower = '''', OverlayUpper = '''', Device = ''/dev/b'',
      DeviceFSType = '''', DeviceConfig = '''', DeviceMountOpts = ''''\<rparr>"
  have r1: "os_ReadFile ?w1 (DeviceConfig ?c1) = Inr ''descriptor''"
    and u1: "json_Unmarshal_ExtDevice ?w1 ''descriptor''
               = Inr \<lparr>ed_Device = ''/dev/a'', FilesystemType = ''''\<rparr>"
    and r2: "os_ReadFile ?w2 (DeviceConfig ?c2) = Inr ''descriptor''"
    and u2: "json_Unmarshal_ExtDevice ?w2 ''descriptor''
               = Inr \<lparr>ed_Device = ''/dev/a'', FilesystemType = ''btrfs''\<rparr>"
    by (simp_all add: example_World_def)
  have sp: "Split ''ro,noatime'' (CHR '','') = [''ro'', ''noatime'']"
    by code_simp
  have 1: "externalDevice ?w1 ?c1 = Inr [\<lparr>Type = ''ext4'', Source = ''/dev/a'', Options = [''rw'']\<rparr>]"
    using C1_externalDevice_layering [where c = ?c1 and w = ?w1 and b = "''descriptor''"] r1 u1
    by simp
  have 2: "externalDevice ?w2 ?c2
      = Inr [\<lparr>Type = ''btrfs'', Source = ''/dev/b'', Options = [''ro'', ''noatime'']\<rparr>]"
    using C1_externalDevice_layering [where c = ?c2 and w = ?w2 and b = "''descriptor''"
        and ed = "\<lparr>ed_Device = ''/dev/a'', FilesystemType = ''btrfs''\<rparr>"] r2 u2 sp
    by simp
  have 3: "externalDevice ?w2 ?c3 = Inr [\<lparr>Type = ''xfs'', Source = ''/dev/b'', Options = [''rw'']\<rparr>]"
    using C1_externalDevice_layering [where c = ?c3 and w = ?w2]
    by simp
  from 1 2 3 show ?thesis by blast
qed

subsection \<open>HookMounts\<close>

lemma single_mount: "length mounts = 1 \<and> P (mounts ! 0) \<longleftrightarrow> (\<exists>m. mounts = [m] \<and> P m)"
  by (cases mounts) auto

lemma driver_names: "ExternalRootFSDriverDevice \<noteq> ExternalRootFSDriverOverlay"
  by (simp add: ExternalRootFSDriverDevice_def ExternalRootFSDriverOverlay_def)

lemma HookMounts_overlay:
  assumes "Driver c = ExternalRootFSDriverOverlay" and "Type m = ''overlay''"
    and "ParseOverlayOption m = (upper, lower, work)"
  shows "HookMounts_body w [m] c =
     (let upperdir = (if OverlayUpper c \<noteq> '''' then OverlayUpper c else upper);
          lowdir = (if OverlayLower c \<noteq> '''' then OverlayLower c else lower);
          newMount = \<lparr>Type = ''overlay'', Source = ''overlay'',
                      Options = [''upperdir='' @ upperdir, ''lowerdir='' @ lowdir,
                                 ''workdir='' @ work, ''index=off'']\<rparr>
      in if OverlayUpper c = '''' then (Inr [newMount], [Branch_Overlay])
         else (case os_MkdirAll w upperdir 0x1FF of
                 None \<Rightarrow> (Inr [newMount], [Branch_Overlay, Call_MkdirAll upperdir 0x1FF])
               | Some err \<Rightarrow> (Inl err, [Branch_Overlay, Call_MkdirAll upperdir 0x1FF])))"
  using assms by (simp add: HookMounts_body_def Let_def split: option.splits)

lemma HookMounts_not_overlay:
  assumes "\<not> (Driver c = ExternalRootFSDriverOverlay \<and> (\<exists>m. mounts = [m] \<and> Type m = ''overlay''))"
  shows "HookMounts_body w mounts c =
     (if Driver c = ExternalRootFSDriverDevice then (externalDevice w c, [Branch_Device])
      else (Inr mounts, [Branch_PassThrough]))"
  using assms single_mount [of mounts "\<lambda>m. Type m = ''overlay''"]
  by (auto simp add: HookMounts_body_def)

lemma HookMounts_read:
  "ReadExternalRootFSConfigFromENV w configPath = Inr c \<Longrightarrow>
   HookMounts w mounts configPath = HookMounts_body w mounts c"
  by (simp add: HookMounts_def)

text \<open>
  C2. When the driver is \<open>device\<close> and the device is still empty after the layering (no
  inline device, and either no descriptor file or a descriptor whose device is empty),
  \<open>HookMounts\<close> returns the error of \<open>externalDevice\<close>, "use external deivce as rootfs,
  but config is empty", and no mount list. In particular this is the result when
  neither \<open>EXTERNAL_ROOTFS_DEVICE_NAME\<close> nor \<open>EXTERNAL_ROOTFS_DEVICE_CONFIG\<close> is set.
\<close>

theorem C2_missing_device:
  assumes "ReadExternalRootFSConfigFromENV w configPath = Inr c"
    and "Driver c = ExternalRootFSDriverDevice"
    and "Device c = ''''"
    and "DeviceConfig c = '''' \<or>
         (\<exists>b ed. os_ReadFile w (DeviceConfig c) = Inr b \<and>
                  json_Unmarshal_ExtDevice w b = Inr ed \<and> ed_Device ed = '''')"
  shows "HookMounts w mounts configPath =
           (Inl (Errorf ''use external deivce as rootfs, but config is empty''), [Branch_Device])"
proof -
  have "externalDevice w c = Inl (Errorf ''use external deivce as rootfs, but config is empty'')"
    using assms(3,4) by (auto simp add: externalDevice_def Let_def)
  moreover have "HookMounts_body w mounts c = (externalDevice w c, [Branch_Device])"
    using assms(2) driver_names by (simp add: HookMounts_not_overlay)
  ultimately show ?thesis
    by (simp add: HookMounts_read [OF assms(1)])
qed

theorem C2_missing_device_witness:
  "HookMounts (example_World [''EXTERNAL_ROOTFS_DRIVER=device'', ''PATH=/bin'']
                 \<lparr>ed_Device = '''', FilesystemType = ''''\<rparr>)
       [\<lparr>Type = ''overlay'', Source = ''overlay'', Options = [''lowerdir=/l'']\<rparr>] ''config.json''
     = (Inl (Errorf ''use external deivce as rootfs, but config is empty''), [Branch_Device]) \<and>
   HookMounts (example_World [''EXTERNAL_ROOTFS_DRIVER=device'',
                              ''EXTERNAL_ROOTFS_DEVICE_CONFIG=/run/extdev.json'']
                 \<lparr>ed_Device = '''', FilesystemType = ''ext4''\<rparr>) [] ''config.json''
     = (Inl (Errorf ''use external deivce as rootfs, but config is empty''), [Branch_Device])"
proof -
  let ?e1 = "[''EXTERNAL_ROOTFS_DRIVER=device'', ''PATH=/bin'']"
  let ?e2 = "[''EXTERNAL_ROOTFS_DRIVER=device'', ''EXTERNAL_ROOTFS_DEVICE_CONFIG=/run/extdev.json'']"
  let ?w1 = "example_World ?e1 \<lparr>ed_Device = '''', FilesystemType = ''''\<rparr>"
  let ?w2 = "example_World ?e2 \<lparr>ed_Device = '''', FilesystemType = ''ext4''\<rparr>"
  let ?c1 = "ExternalRootFSConfig_zero\<lparr>Driver := ''device''\<rparr>"
  let ?c2 = "ExternalRootFSConfig_zero\<lparr>Driver := ''device'', DeviceConfig := ''/run/extdev.json''\<rparr>"
  have "configFromEnv ?e1 = ?c1" and "configFromEnv ?e2 = ?c2"
    by code_simp+
  then have r1: "ReadExternalRootFSConfigFromENV ?w1 ''config.json'' = Inr ?c1"
    and r2: "ReadExternalRootFSConfigFromENV ?w2 ''config.json'' = Inr ?c2"
    by (simp_all add: ReadExternalRootFSConfigFromENV_def example_World_def)
  have f1: "Driver ?c1 = ExternalRootFSDriverDevice" "Device ?c1 = ''''" "DeviceConfig ?c1 = ''''"
    and f2: "Driver ?c2 = ExternalRootFSDriverDevice" "Device ?c2 = ''''"
    by (simp_all add: ExternalRootFSConfig_zero_def ExternalRootFSDriverDevice_def)
  have d2: "\<exists>b ed. os_ReadFile ?w2 (DeviceConfig ?c2) = Inr b \<and>
                  json_Unmarshal_ExtDevice ?w2 b = Inr ed \<and> ed_Device ed = ''''"
    by (simp add: example_World_def ExternalRootFSConfig_zero_def)
  show ?thesis
    using C2_missing_device [OF r1 f1(1) f1(2), of "[\<lparr>Type = ''overlay'', Source = ''overlay'',
        Options = [''lowerdir=/l'']\<rparr>]"] f1(3)
      C2_missing_device [OF r2 f2(1) f2(2), of "[]"] d2
    by blast
qed

text \<open>
  C3. When \<open>HookMounts\<close> takes the overlay branch (driver \<open>overlay\<close>, one mount, of type
  \<open>overlay\<close>) and the directory of a non-empty \<open>OverlayUpper\<close> can be created, the result
  is exactly one mount of type \<open>overlay\<close> and source \<open>overlay\<close> with the options
  \<open>upperdir=\<close>, \<open>lowerdir=\<close>, \<open>workdir=\<close> and \<open>index=off\<close> in this order. Upper and lower
  are the values parsed from the mount, replaced by \<open>OverlayUpper\<close> and \<open>OverlayLower\<close>
  when these are non-empty; work is the parsed value; \<open>index=off\<close> is always the last
  option. The only call that changes the file system is \<open>os.MkdirAll\<close> of a non-empty
  \<open>OverlayUpper\<close> with mode \<open>0777\<close>.
\<close>

theorem C3_overlay_override:
  assumes "ReadExternalRootFSConfigFromENV w configPath = Inr c"
    and "Driver c = ExternalRootFSDriverOverlay"
    and "mounts = [m]" and "Type m = ''overlay''"
    and "ParseOverlayOption m = (upper, lower, work)"
    and "OverlayUpper c \<noteq> '''' \<longrightarrow> os_MkdirAll w (OverlayUpper c) 0x1FF = None"
  shows "HookMounts w mounts configPath =
     (Inr [\<lparr>Type = ''overlay'', Source = ''overlay'',
            Options = [''upperdir='' @ (if OverlayUpper c \<noteq> '''' then OverlayUpper c else upper),
                       ''lowerdir='' @ (if OverlayLower c \<noteq> '''' then OverlayLower c else lower),
                       ''workdir='' @ work, ''index=off'']\<rparr>],
      Branch_Overlay #
        (if OverlayUpper c \<noteq> '''' then [Call_MkdirAll (OverlayUpper c) 0x1FF] else []))"
  using assms(6)
  by (simp add: HookMounts_read [OF assms(1)] assms(3) HookMounts_overlay [OF assms(2,4,5)] Let_def)

theorem C3_overlay_override_witness:
  "HookMounts (example_World [''EXTERNAL_ROOTFS_DRIVER=overlay'',
                              ''EXTERNAL_ROOTFS_OVERLAY_UPPER_PATH=/x'']
                 \<lparr>ed_Device = '''', FilesystemType = ''''\<rparr>)
       [\<lparr>Type = ''overlay'', Source = ''overlay'',
         Options = [''upperdir=/a'', ''lowerdir=/b'', ''workdir=/c'']\<rparr>] ''config.json''
     = (Inr [\<lparr>Type = ''overlay'', Source = ''overlay'',
              Options = [''upperdir=/x'', ''lowerdir=/b'', ''workdir=/c'', ''index=off'']\<rparr>],
        [Branch_Overlay, Call_MkdirAll ''/x'' 0x1FF])"
proof -
  let ?e = "[''EXTERNAL_ROOTFS_DRIVER=overlay'', ''EXTERNAL_ROOTFS_OVERLAY_UPPER_PATH=/x'']"
  let ?w = "example_World ?e \<lparr>ed_Device = '''', FilesystemType = ''''\<rparr>"
  let ?c = "ExternalRootFSConfig_zero\<lparr>Driver := ''overlay'', OverlayUpper := ''/x''\<rparr>"
  let ?m = "\<lparr>Type = ''overlay'', Source = ''overlay'',
         Options = [''upperdir=/a'', ''lowerdir=/b'', ''workdir=/c'']\<rparr>"
  have "configFromEnv ?e = ?c"
    by code_simp
  then have r: "ReadExternalRootFSConfigFromENV ?w ''config.json'' = Inr ?c"
    by (simp add: ReadExternalRootFSConfigFromENV_def example_World_def)
  have d: "Driver ?c = ExternalRootFSDriverOverlay"
    by (simp add: ExternalRootFSDriverOverlay_def)
  have t: "Type ?m = ''overlay''"
    by simp
  have p: "ParseOverlayOption ?m = (''/a'', ''/b'', ''/c'')"
    by (simp add: ParseOverlayOption_def HasPrefix_def TrimPrefix_def)
  have k: "OverlayUpper ?c \<noteq> '''' \<longrightarrow> os_MkdirAll ?w (OverlayUpper ?c) 0x1FF = None"
    by (simp add: example_World_def)
  show ?thesis
    using C3_overlay_override [OF r d refl t p k]
    by (simp add: ExternalRootFSConfig_zero_def)
qed

text \<open>
  C4. \<open>HookMounts\<close> takes the overlay branch exactly when the driver is \<open>overlay\<close> and
  the caller gave exactly one mount, of type \<open>overlay\<close>: then, and only then, the result
  is the rewritten overlay mount (or the error of \<open>os.MkdirAll\<close>), whatever the mount
  list was. Otherwise, with the driver \<open>device\<close> the result is that of
  \<open>externalDevice\<close>, whatever the mounts were, and with any other driver the mounts of
  the caller are returned unchanged, with no error and without changing the file
  system; this is the case for the driver \<open>overlay\<close> with two mounts.
\<close>

theorem C4_branch_selection:
  assumes "ReadExternalRootFSConfigFromENV w configPath = Inr c"
  shows "(Driver c = ExternalRootFSDriverOverlay \<and> mounts = [m] \<and> Type m = ''overlay'' \<longrightarrow>
            HookMounts w mounts configPath =
              (if OverlayUpper c \<noteq> '''' \<and> os_MkdirAll w (OverlayUpper c) 0x1FF \<noteq> None
               then Inl (the (os_MkdirAll w (OverlayUpper c) 0x1FF))
               else Inr [\<lparr>Type = ''overlay'', Source = ''overlay'',
                          Options =
                            [''upperdir='' @ (if OverlayUpper c \<noteq> '''' then OverlayUpper c
                                              else fst (ParseOverlayOption m)),
                             ''lowerdir='' @ (if OverlayLower c \<noteq> '''' then OverlayLower c
                                              else fst (snd (ParseOverlayOption m))),
                             ''workdir='' @ snd (snd (ParseOverlayOption m)),
                             ''index=off'']\<rparr>],
               Branch_Overlay #
                 (if OverlayUpper c \<noteq> '''' then [Call_MkdirAll (OverlayUpper c) 0x1FF] else []))) \<and>
         (\<not> (Driver c = ExternalRootFSDriverOverlay \<and> (\<exists>m. mounts = [m] \<and> Type m = ''overlay''))
            \<and> Driver c = ExternalRootFSDriverDevice \<longrightarrow>
            HookMounts w mounts configPath = (externalDevice w c, [Branch_Device])) \<and>
         (\<not> (Driver c = ExternalRootFSDriverOverlay \<and> (\<exists>m. mounts = [m] \<and> Type m = ''overlay''))
            \<and> Driver c \<noteq> ExternalRootFSDriverDevice \<longrightarrow>
            HookMounts w mounts configPath = (Inr mounts, [Branch_PassThrough])) \<and>
         (Driver c = ExternalRootFSDriverOverlay \<and> length mounts = 2 \<longrightarrow>
            HookMounts w mounts configPath = (Inr mounts, [Branch_PassThrough])) \<and>
         (Branch_Overlay \<in> set (snd (HookMounts w mounts configPath)) \<longleftrightarrow>
            Driver c = ExternalRootFSDriverOverlay \<and> (\<exists>m. mounts = [m] \<and> Type m = ''overlay'')) \<and>
         (Branch_Device \<in> set (snd (HookMounts w mounts configPath)) \<longleftrightarrow>
            Driver c = ExternalRootFSDriverDevice)"
proof -
  have overlay: "HookMounts w [m] configPath =
      (if OverlayUpper c \<noteq> '''' \<and> os_MkdirAll w (OverlayUpper c) 0x1FF \<noteq> None
       then Inl (the (os_MkdirAll w (OverlayUpper c) 0x1FF))
       else Inr [\<lparr>Type = ''overlay'', Source = ''overlay'',
                  Options =
                    [''upperdir='' @ (if OverlayUpper c \<noteq> '''' then OverlayUpper c
                                      else fst (ParseOverlayOption m)),
                     ''lowerdir='' @ (if OverlayLower c \<noteq> '''' then OverlayLower c
                                      else fst (snd (ParseOverlayOption m))),
                     ''workdir='' @ snd (snd (ParseOverlayOption m)),
                     ''index=off'']\<rparr>],
       Branch_Overlay #
         (if OverlayUpper c \<noteq> '''' then [Call_MkdirAll (OverlayUpper c) 0x1FF] else []))"
    and overlay_label: "Branch_Overlay \<in> set (snd (HookMounts w [m] configPath))"
    and overlay_not_device: "Branch_Device \<notin> set (snd (HookMounts w [m] configPath))"
    if d: "Driver c = ExternalRootFSDriverOverlay" and t: "Type m = ''overlay''" for m
  proof -
    obtain upper lower work where p: "ParseOverlayOption m = (upper, lower, work)"
      by (cases "ParseOverlayOption m") blast
    show "HookMounts w [m] configPath =
      (if OverlayUpper c \<noteq> '''' \<and> os_MkdirAll w (OverlayUpper c) 0x1FF \<noteq> None
       then Inl (the (os_MkdirAll w (OverlayUpper c) 0x1FF))
       else Inr [\<lparr>Type = ''overlay'', Source = ''overlay'',
                  Options =
                    [''upperdir='' @ (if OverlayUpper c \<noteq> '''' then OverlayUpper c
                                      else fst (ParseOverlayOption m)),
                     ''lowerdir='' @ (if OverlayLower c \<noteq> '''' then OverlayLower c
                                      else fst (snd (ParseOverlayOption m))),
                     ''workdir='' @ snd (snd (ParseOverlayOption m)),
                     ''index=off'']\<rparr>],
       Branch_Overlay #
         (if OverlayUpper c \<noteq> '''' then [Call_MkdirAll (OverlayUpper c) 0x1FF] else []))"
      by (auto simp add: HookMounts_read [OF assms] HookMounts_overlay [OF d t p] p Let_def
            split: option.splits)
    show "Branch_Overlay \<in> set (snd (HookMounts w [m] configPath))"
      and "Branch_Device \<notin> set (snd (HookMounts w [m] configPath))"
      by (simp_all add: HookMounts_read [OF assms] HookMounts_overlay [OF d t p] Let_def
            split: option.splits)
  qed
  have other: "HookMounts w mounts configPath =
      (if Driver c = ExternalRootFSDriverDevice then (externalDevice w c, [Branch_Device])
       else (Inr mounts, [Branch_PassThrough]))"
    if "\<not> (Driver c = ExternalRootFSDriverOverlay \<and> (\<exists>m. mounts = [m] \<and> Type m = ''overlay''))"
    using that by (simp add: HookMounts_read [OF assms] HookMounts_not_overlay)
  have two: "length mounts = 2 \<Longrightarrow> \<not> (\<exists>m. mounts = [m] \<and> Type m = ''overlay'')"
    by auto
  show ?thesis
  proof (cases "Driver c = ExternalRootFSDriverOverlay \<and> (\<exists>m. mounts = [m] \<and> Type m = ''overlay'')")
    case True
    then obtain m' where m': "mounts = [m']" "Type m' = ''overlay''"
      and d: "Driver c = ExternalRootFSDriverOverlay"
      by blast
    show ?thesis
      using overlay [OF d m'(2)] overlay_label [OF d m'(2)] overlay_not_device [OF d m'(2)]
        d m'(2) driver_names
      by (auto simp add: m'(1))
  next
    case False
    then show ?thesis
      using other [OF False] two driver_names by auto
  qed
qed

theorem C4_branch_selection_witness:
  "HookMounts (example_World [''EXTERNAL_ROOTFS_DRIVER=overlay'']
                 \<lparr>ed_Device = '''', FilesystemType = ''''\<rparr>)
       [\<lparr>Type = ''overlay'', Source = ''overlay'',
         Options = [''workdir=/c'', ''lowerdir=/b'', ''upperdir=/a'']\<rparr>] ''config.json''
     = (Inr [\<lparr>Type = ''overlay'', Source = ''overlay'',
              Options = [''upperdir=/a'', ''lowerdir=/b'', ''workdir=/c'', ''index=off'']\<rparr>],
        [Branch_Overlay]) \<and>
   HookMounts (example_World [''EXTERNAL_ROOTFS_DRIVER=overlay'']
                 \<lparr>ed_Device = '''', FilesystemType = ''''\<rparr>)
       [\<lparr>Type = ''overlay'', Source = ''overlay'', Options = [''lowerdir=/l'']\<rparr>,
        \<lparr>Type = ''bind'', Source = ''/data'', Options = [''rbind'']\<rparr>] ''config.json''
     = (Inr [\<lparr>Type = ''overlay'', Source = ''overlay'', Options = [''lowerdir=/l'']\<rparr>,
             \<lparr>Type = ''bind'', Source = ''/data'', Options = [''rbind'']\<rparr>],
        [Branch_PassThrough]) \<and>
   HookMounts (example_World [''EXTERNAL_ROOTFS_DRIVER=overlay'']
                 \<lparr>ed_Device = '''', FilesystemType = ''''\<rparr>)
       [\<lparr>Type = ''bind'', Source = ''/data'', Options = [''rbind'']\<rparr>] ''config.json''
     = (Inr [\<lparr>Type = ''bind'', Source = ''/data'', Options = [''rbind'']\<rparr>],
        [Branch_PassThrough]) \<and>
   HookMounts (example_World [''EXTERNAL_ROOTFS_DRIVER=device'', ''EXTERNAL_ROOTFS_DEVICE_NAME=/dev/a'']
                 \<lparr>ed_Device = '''', FilesystemType = ''''\<rparr>)
       [\<lparr>Type = ''overlay'', Source = ''overlay'', Options = [''lowerdir=/l'']\<rparr>] ''config.json''
     = (Inr [\<lparr>Type = ''xfs'', Source = ''/dev/a'', Options = [''rw'']\<rparr>], [Branch_Device]) \<and>
   HookMounts (example_World [''PATH=/bin''] \<lparr>ed_Device = '''', FilesystemType = ''''\<rparr>)
       [\<lparr>Type = ''overlay'', Source = ''overlay'', Options = [''lowerdir=/l'']\<rparr>] ''config.json''
     = (Inr [\<lparr>Type = ''overlay'', Source = ''overlay'', Options = [''lowerdir=/l'']\<rparr>],
        [Branch_PassThrough])"
proof -
  let ?ed = "\<lparr>ed_Device = '''', FilesystemType = ''''\<rparr>"
  let ?e1 = "[''EXTERNAL_ROOTFS_DRIVER=overlay'']"
  let ?e2 = "[''PATH=/bin'']"
  let ?e3 = "[''EXTERNAL_ROOTFS_DRIVER=device'', ''EXTERNAL_ROOTFS_DEVICE_NAME=/dev/a'']"
  let ?w1 = "example_World ?e1 ?ed"
  let ?w2 = "example_World ?e2 ?ed"
  let ?w3 = "example_World ?e3 ?ed"
  let ?c1 = "ExternalRootFSConfig_zero\<lparr>Driver := ''overlay''\<rparr>"
  let ?c3 = "ExternalRootFSConfig_zero\<lparr>Driver := ''device'', Device := ''/dev/a''\<rparr>"
  let ?m = "\<lparr>Type = ''overlay'', Source = ''overlay'', Options = [''lowerdir=/l'']\<rparr>"
  let ?mo = "\<lparr>Type = ''overlay'', Source = ''overlay'',
         Options = [''workdir=/c'', ''lowerdir=/b'', ''upperdir=/a'']\<rparr>"
  let ?mb = "\<lparr>Type = ''bind'', Source = ''/data'', Options = [''rbind'']\<rparr>"
  have "configFromEnv ?e1 = ?c1" and "configFromEnv ?e2 = ExternalRootFSConfig_zero"
    and "configFromEnv ?e3 = ?c3"
    by code_simp+
  then have r1: "ReadExternalRootFSConfigFromENV ?w1 ''config.json'' = Inr ?c1"
    and r2: "ReadExternalRootFSConfigFromENV ?w2 ''config.json'' = Inr ExternalRootFSConfig_zero"
    and r3: "ReadExternalRootFSConfigFromENV ?w3 ''config.json'' = Inr ?c3"
    by (simp_all add: ReadExternalRootFSConfigFromENV_def example_World_def)
  have p: "ParseOverlayOption ?mo = (''/a'', ''/b'', ''/c'')"
    by (simp add: ParseOverlayOption_def HasPrefix_def TrimPrefix_def)
  have a: "HookMounts ?w1 [?mo] ''config.json''
     = (Inr [\<lparr>Type = ''overlay'', Source = ''overlay'',
              Options = [''upperdir=/a'', ''lowerdir=/b'', ''workdir=/c'', ''index=off'']\<rparr>],
        [Branch_Overlay])"
    using C4_branch_selection [OF r1, of "[?mo]" ?mo] p
    by (simp add: ExternalRootFSConfig_zero_def ExternalRootFSDriverOverlay_def)
  have b: "HookMounts ?w1 [?m, ?mb] ''config.json'' = (Inr [?m, ?mb], [Branch_PassThrough])"
    using C4_branch_selection [OF r1, of "[?m, ?mb]"]
    by (simp add: ExternalRootFSDriverOverlay_def)
  have c: "HookMounts ?w1 [?mb] ''config.json'' = (Inr [?mb], [Branch_PassThrough])"
    using C4_branch_selection [OF r1, of "[?mb]"]
    by (simp add: ExternalRootFSConfig_zero_def ExternalRootFSDriverOverlay_def
          ExternalRootFSDriverDevice_def)
  have "externalDevice ?w3 ?c3 = Inr [\<lparr>Type = ''xfs'', Source = ''/dev/a'', Options = [''rw'']\<rparr>]"
    by (simp add: externalDevice_def ExternalRootFSConfig_zero_def)
  then have d: "HookMounts ?w3 [?m] ''config.json''
     = (Inr [\<lparr>Type = ''xfs'', Source = ''/dev/a'', Options = [''rw'']\<rparr>], [Branch_Device])"
    using C4_branch_selection [OF r3, of "[?m]"]
    by (simp add: ExternalRootFSConfig_zero_def ExternalRootFSDriverOverlay_def
          ExternalRootFSDriverDevice_def)
  have e: "HookMounts ?w2 [?m] ''config.json'' = (Inr [?m], [Branch_PassThrough])"
    using C4_branch_selection [OF r2, of "[?m]"]
    by (simp add: ExternalRootFSConfig_zero_def ExternalRootFSDriverOverlay_def
          ExternalRootFSDriverDevice_def)
  from a b c d e show ?thesis by blast
qed

subsection \<open>The two versions\<close>

lemma lookupField_folded:
  assumes "distinct (map (foldName \<circ> fst) flds)"
  shows "lookupField flds key = map_of (map (\<lambda>(tag, f). (foldName tag, f)) flds) (foldName key)"
proof (cases "map_of flds key")
  case None
  then show ?thesis by (simp add: lookupField_def)
next
  case (Some f)
  then have "(key, f) \<in> set flds"
    by (rule map_of_SomeD)
  then have "(foldName key, f) \<in> set (map (\<lambda>(tag, f). (foldName tag, f)) flds)"
    by force
  moreover have "distinct (map fst (map (\<lambda>(tag, f). (foldName tag, f)) flds))"
    using assms by (simp add: comp_def case_prod_unfold)
  ultimately have "map_of (map (\<lambda>(tag, f). (foldName tag, f)) flds) (foldName key) = Some f"
    by (rule map_of_is_SomeI [rotated])
  then show ?thesis
    using Some by (simp add: lookupField_def)
qed

lemma lookupField_config:
  "lookupField ExternalRootFSConfig_fields key = map_of ExternalRootFSConfig_fields (foldName key)"
proof -
  have "distinct (map (foldName \<circ> fst) ExternalRootFSConfig_fields)"
    by (simp add: ExternalRootFSConfig_fields_def foldByte_def)
  moreover have "map (\<lambda>(tag, f). (foldName tag, f)) ExternalRootFSConfig_fields
                   = ExternalRootFSConfig_fields"
    by (simp add: ExternalRootFSConfig_fields_def foldByte_def)
  ultimately show ?thesis
    using lookupField_folded [of ExternalRootFSConfig_fields key] by simp
qed

lemma lookupField_config2:
  "lookupField ExternalRootFSConfig2_fields key = map_of ExternalRootFSConfig2_fields (foldName key)"
proof -
  have "distinct (map (foldName \<circ> fst) ExternalRootFSConfig2_fields)"
    by (simp add: ExternalRootFSConfig2_fields_def foldByte_def)
  moreover have "map (\<lambda>(tag, f). (foldName tag, f)) ExternalRootFSConfig2_fields
                   = ExternalRootFSConfig2_fields"
    by (simp add: ExternalRootFSConfig2_fields_def foldByte_def)
  ultimately show ?thesis
    using lookupField_folded [of ExternalRootFSConfig2_fields key] by simp
qed

text \<open>One member of the JSON object has the same effect on the five common fields.\<close>

lemma to2_member:
  "to2 (case lookupField ExternalRootFSConfig_fields key of
          None \<Rightarrow> c | Some assign \<Rightarrow> assign v c)
     = (case lookupField ExternalRootFSConfig2_fields key of
          None \<Rightarrow> to2 c | Some assign \<Rightarrow> assign v (to2 c))"
  unfolding lookupField_config lookupField_config2
  by (simp add: ExternalRootFSConfig_fields_def ExternalRootFSConfig2_fields_def to2_def)

lemma to2_Unmarshal_object:
  "to2 (Unmarshal_object ExternalRootFSConfig_fields members c)
     = Unmarshal_object ExternalRootFSConfig2_fields members (to2 c)"
proof (induction members arbitrary: c)
  case Nil
  show ?case by (simp add: Unmarshal_object_Nil)
next
  case (Cons member members)
  obtain key v where member: "member = (key, v)"
    by (cases member)
  show ?case
    by (simp only: member Unmarshal_object_Cons Cons.IH to2_member)
qed

lemma configFromEnv2_to2: "configFromEnv2 env = to2 (configFromEnv env)"
proof -
  have "to2 ExternalRootFSConfig_zero = ExternalRootFSConfig2_zero"
    by (simp add: to2_def ExternalRootFSConfig_zero_def ExternalRootFSConfig2_zero_def)
  then show ?thesis
    by (simp add: configFromEnv_def configFromEnv2_def to2_Unmarshal_object)
qed

lemma ReadExternalRootFSConfigFromENV2_to2:
  "ReadExternalRootFSConfigFromENV w configFile = Inr c \<Longrightarrow>
   ReadExternalRootFSConfigFromENV2 w configFile = Inr (to2 c)"
  by (auto simp add: ReadExternalRootFSConfigFromENV_def ReadExternalRootFSConfigFromENV2_def
        configFromEnv2_to2 split: sum.splits option.splits)

lemma HookMounts2_read:
  "ReadExternalRootFSConfigFromENV w configPath = Inr c \<Longrightarrow>
   HookMounts2 w mounts configPath = HookMounts2_body w mounts (to2 c)"
  by (simp add: HookMounts2_def ReadExternalRootFSConfigFromENV2_to2)

lemma to2_sel:
  "Driver2 (to2 c) = Driver c" "OverlayLower2 (to2 c) = OverlayLower c"
  "OverlayUpper2 (to2 c) = OverlayUpper c" "Device2 (to2 c) = Device c"
  "DeviceFSType2 (to2 c) = DeviceFSType c"
  by (simp_all add: to2_def)

text \<open>Outside the driver \<open>device\<close>, the two bodies are the same function of the five fields.\<close>

lemma HookMounts2_body_not_device:
  "Driver c \<noteq> ExternalRootFSDriverDevice \<Longrightarrow>
   HookMounts2_body w mounts (to2 c) = HookMounts_body w mounts c"
  by (simp add: HookMounts2_body_def HookMounts_body_def to2_sel Let_def
        split: prod.splits option.splits)

lemma HookMounts_body_device:
  assumes "Driver c = ExternalRootFSDriverDevice"
    and "DeviceConfig c = ''''" and "DeviceMountOpts c = ''''"
  shows "HookMounts_body w mounts c =
     (if Device c = '''' then
        (Inl (Errorf ''use external deivce as rootfs, but config is empty''), [Branch_Device])
      else (Inr [\<lparr>Type = (if DeviceFSType c \<noteq> '''' then DeviceFSType c else ''xfs''),
                   Source = Device c, Options = [''rw'']\<rparr>], [Branch_Device]))"
  using assms driver_names
  by (simp add: HookMounts_not_overlay externalDevice_def Let_def)

lemma HookMounts2_body_device:
  assumes "Driver c = ExternalRootFSDriverDevice"
  shows "HookMounts2_body w mounts (to2 c) =
     (if Device c = '''' then (Inr mounts, [Branch_PassThrough])
      else (Inr [\<lparr>Type = DeviceFSType c, Source = Device c, Options = [''rw'']\<rparr>],
            [Branch_Device]))"
  using assms driver_names
  by (simp add: HookMounts2_body_def to2_sel)

text \<open>
  C5, as it holds of the code. For a configuration whose \<open>DeviceConfig\<close> and \<open>DeviceMountOpts\<close> are
  empty, the two versions of \<open>HookMounts\<close> give the same result (mounts or error, and
  the same calls) exactly when the driver is not \<open>device\<close>, or both \<open>Device\<close> and
  \<open>DeviceFSType\<close> are non-empty. With the driver \<open>device\<close> and an empty \<open>Device\<close> the
  first version returns the error and the second returns the mounts of the caller;
  with an empty \<open>DeviceFSType\<close> the first mounts with type \<open>xfs\<close> and the second with an
  empty type.
\<close>

theorem C5_versions_agree:
  assumes "ReadExternalRootFSConfigFromENV w configPath = Inr c"
    and "DeviceConfig c = ''''" and "DeviceMountOpts c = ''''"
  shows "(HookMounts w mounts configPath = HookMounts2 w mounts configPath \<longleftrightarrow>
            Driver c \<noteq> ExternalRootFSDriverDevice \<or> (Device c \<noteq> '''' \<and> DeviceFSType c \<noteq> '''')) \<and>
         (fst (HookMounts w mounts configPath) = fst (HookMounts2 w mounts configPath) \<longleftrightarrow>
            Driver c \<noteq> ExternalRootFSDriverDevice \<or> (Device c \<noteq> '''' \<and> DeviceFSType c \<noteq> ''''))"
proof (cases "Driver c = ExternalRootFSDriverDevice")
  case True
  show ?thesis
    using True
    by (auto simp add: HookMounts_read [OF assms(1)] HookMounts2_read [OF assms(1)]
          HookMounts_body_device [OF True assms(2,3)] HookMounts2_body_device [OF True])
next
  case False
  then show ?thesis
    by (simp add: HookMounts_read [OF assms(1)] HookMounts2_read [OF assms(1)]
          HookMounts2_body_not_device)
qed

theorem C5_versions_agree_witness:
  "HookMounts (example_World [''EXTERNAL_ROOTFS_DRIVER=device'', ''EXTERNAL_ROOTFS_DEVICE_NAME=/dev/a'',
                              ''EXTERNAL_ROOTFS_DEVICE_FSTYPE=ext4'']
                 \<lparr>ed_Device = '''', FilesystemType = ''''\<rparr>) [] ''config.json''
     = HookMounts2 (example_World [''EXTERNAL_ROOTFS_DRIVER=device'', ''EXTERNAL_ROOTFS_DEVICE_NAME=/dev/a'',
                              ''EXTERNAL_ROOTFS_DEVICE_FSTYPE=ext4'']
                 \<lparr>ed_Device = '''', FilesystemType = ''''\<rparr>) [] ''config.json''"
proof -
  let ?e = "[''EXTERNAL_ROOTFS_DRIVER=device'', ''EXTERNAL_ROOTFS_DEVICE_NAME=/dev/a'',
             ''EXTERNAL_ROOTFS_DEVICE_FSTYPE=ext4'']"
  let ?w = "example_World ?e \<lparr>ed_Device = '''', FilesystemType = ''''\<rparr>"
  let ?c = "ExternalRootFSConfig_zero\<lparr>Driver := ''device'', Device := ''/dev/a'',
              DeviceFSType := ''ext4''\<rparr>"
  have "configFromEnv ?e = ?c"
    by code_simp
  then have r: "ReadExternalRootFSConfigFromENV ?w ''config.json'' = Inr ?c"
    by (simp add: ReadExternalRootFSConfigFromENV_def example_World_def)
  have f: "DeviceConfig ?c = ''''" "DeviceMountOpts ?c = ''''"
    by (simp_all add: ExternalRootFSConfig_zero_def)
  show ?thesis
    using C5_versions_agree [OF r f, of "[]"] by simp
qed

text \<open>
  With only \<open>EXTERNAL_ROOTFS_DRIVER=device\<close> and \<open>EXTERNAL_ROOTFS_DEVICE_NAME=/dev/a\<close> in the
  environment, \<open>DeviceConfig\<close> and \<open>DeviceMountOpts\<close> are empty and the two versions
  differ: the first mounts \<open>/dev/a\<close> with type \<open>xfs\<close>, the second with the empty type.
  With only the driver set, the first fails and the second returns the mounts.
\<close>

theorem C5_versions_differ_counterexample:
  "DeviceConfig (configFromEnv [''EXTERNAL_ROOTFS_DRIVER=device'', ''EXTERNAL_ROOTFS_DEVICE_NAME=/dev/a'']) = '''' \<and>
   DeviceMountOpts (configFromEnv [''EXTERNAL_ROOTFS_DRIVER=device'', ''EXTERNAL_ROOTFS_DEVICE_NAME=/dev/a'']) = '''' \<and>
   fst (HookMounts (example_World [''EXTERNAL_ROOTFS_DRIVER=device'', ''EXTERNAL_ROOTFS_DEVICE_NAME=/dev/a'']
                      \<lparr>ed_Device = '''', FilesystemType = ''''\<rparr>) [] ''config.json'')
     = Inr [\<lparr>Type = ''xfs'', Source = ''/dev/a'', Options = [''rw'']\<rparr>] \<and>
   fst (HookMounts2 (example_World [''EXTERNAL_ROOTFS_DRIVER=device'', ''EXTERNAL_ROOTFS_DEVICE_NAME=/dev/a'']
                      \<lparr>ed_Device = '''', FilesystemType = ''''\<rparr>) [] ''config.json'')
     = Inr [\<lparr>Type = '''', Source = ''/dev/a'', Options = [''rw'']\<rparr>] \<and>
   fst (HookMounts (example_World [''EXTERNAL_ROOTFS_DRIVER=device'']
                      \<lparr>ed_Device = '''', FilesystemType = ''''\<rparr>)
          [\<lparr>Type = ''overlay'', Source = ''overlay'', Options = [''lowerdir=/l'']\<rparr>] ''config.json'')
     = Inl (Errorf ''use external deivce as rootfs, but config is empty'') \<and>
   fst (HookMounts2 (example_World [''EXTERNAL_ROOTFS_DRIVER=device'']
                      \<lparr>ed_Device = '''', FilesystemType = ''''\<rparr>)
          [\<lparr>Type = ''overlay'', Source = ''overlay'', Options = [''lowerdir=/l'']\<rparr>] ''config.json'')
     = Inr [\<lparr>Type = ''overlay'', Source = ''overlay'', Options = [''lowerdir=/l'']\<rparr>] \<and>
   HookMounts (example_World [''EXTERNAL_ROOTFS_DRIVER=device'', ''EXTERNAL_ROOTFS_DEVICE_NAME=/dev/a'']
                 \<lparr>ed_Device = '''', FilesystemType = ''''\<rparr>) [] ''config.json''
     \<noteq> HookMounts2 (example_World [''EXTERNAL_ROOTFS_DRIVER=device'', ''EXTERNAL_ROOTFS_DEVICE_NAME=/dev/a'']
                 \<lparr>ed_Device = '''', FilesystemType = ''''\<rparr>) [] ''config.json''"
proof -
  let ?e1 = "[''EXTERNAL_ROOTFS_DRIVER=device'', ''EXTERNAL_ROOTFS_DEVICE_NAME=/dev/a'']"
  let ?e2 = "[''EXTERNAL_ROOTFS_DRIVER=device'']"
  let ?c1 = "ExternalRootFSConfig_zero\<lparr>Driver := ''device'', Device := ''/dev/a''\<rparr>"
  let ?c2 = "ExternalRootFSConfig_zero\<lparr>Driver := ''device''\<rparr>"
  have c1: "configFromEnv ?e1 = ?c1" and c2: "configFromEnv ?e2 = ?c2"
    by code_simp+
  have d1: "configFromEnv2 ?e1 = to2 ?c1" and d2: "configFromEnv2 ?e2 = to2 ?c2"
    by (simp_all only: configFromEnv2_to2 c1 c2)
  show ?thesis
    by (simp add: HookMounts_def HookMounts2_def ReadExternalRootFSConfigFromENV_def
          ReadExternalRootFSConfigFromENV2_def example_World_def c1 c2 d1 d2 to2_def
          HookMounts_body_def HookMounts2_body_def externalDevice_def
          ExternalRootFSConfig_zero_def ExternalRootFSDriverDevice_def
          ExternalRootFSDriverOverlay_def)
qed

end
